theory Spec2Isabelle
  imports Main
begin

section \<open>Strings\<close>

text \<open>
  A source string is modelled as a \<open>string\<close> (a list of \<open>char\<close>), one \<open>char\<close> per code unit;
  a \<open>char\<close> holds the code units from 0 to 255, so the strings of the model are those
  written in Latin-1. On these the white space, the character classes and the case
  conversions below are the ones of the language. Numbers are modelled as integers.
\<close>

abbreviation (input) NL :: char where "NL \<equiv> CHR 0x0A"
abbreviation (input) QT :: char where "QT \<equiv> CHR 0x27"
abbreviation (input) BQ :: char where "BQ \<equiv> CHR 0x60"

definition upper_chars :: string where
  "upper_chars = ''ABCDEFGHIJKLMNOPQRSTUVWXYZ''"

definition lower_chars :: string where
  "lower_chars = ''abcdefghijklmnopqrstuvwxyz''"

definition digit_chars :: string where
  "digit_chars = ''0123456789''"

definition is_upper :: "char \<Rightarrow> bool" where
  "is_upper c = (c \<in> set upper_chars)"

definition is_lower :: "char \<Rightarrow> bool" where
  "is_lower c = (c \<in> set lower_chars)"

definition is_digit :: "char \<Rightarrow> bool" where
  "is_digit c = (c \<in> set digit_chars)"

text \<open>The capital letters of Latin-1 outside ASCII, \<open>U+00C0\<close> to \<open>U+00DE\<close> without the
  multiplication sign, and their small letters, \<open>U+00E0\<close> to \<open>U+00FE\<close> without the division
  sign. The classes \<open>[A-Z]\<close>, \<open>\w\<close> and \<open>\d\<close> of a regular expression do not contain them.\<close>

definition latin_upper_chars :: string where
  "latin_upper_chars =
     [CHR 0xC0, CHR 0xC1, CHR 0xC2, CHR 0xC3, CHR 0xC4, CHR 0xC5, CHR 0xC6, CHR 0xC7,
      CHR 0xC8, CHR 0xC9, CHR 0xCA, CHR 0xCB, CHR 0xCC, CHR 0xCD, CHR 0xCE, CHR 0xCF,
      CHR 0xD0, CHR 0xD1, CHR 0xD2, CHR 0xD3, CHR 0xD4, CHR 0xD5, CHR 0xD6, CHR 0xD8,
      CHR 0xD9, CHR 0xDA, CHR 0xDB, CHR 0xDC, CHR 0xDD, CHR 0xDE]"

definition latin_lower_chars :: string where
  "latin_lower_chars =
     [CHR 0xE0, CHR 0xE1, CHR 0xE2, CHR 0xE3, CHR 0xE4, CHR 0xE5, CHR 0xE6, CHR 0xE7,
      CHR 0xE8, CHR 0xE9, CHR 0xEA, CHR 0xEB, CHR 0xEC, CHR 0xED, CHR 0xEE, CHR 0xEF,
      CHR 0xF0, CHR 0xF1, CHR 0xF2, CHR 0xF3, CHR 0xF4, CHR 0xF5, CHR 0xF6, CHR 0xF8,
      CHR 0xF9, CHR 0xFA, CHR 0xFB, CHR 0xFC, CHR 0xFD, CHR 0xFE]"

text \<open>The class \<open>\w\<close> of a regular expression: \<open>[A-Za-z0-9_]\<close>.\<close>

definition is_word :: "char \<Rightarrow> bool" where
  "is_word c = (is_upper c \<or> is_lower c \<or> is_digit c \<or> c = CHR ''_'')"

text \<open>The class \<open>\s\<close>, and what \<open>trim\<close> strips: tab, line feed, vertical tab, form feed,
  carriage return, space and the no-break space \<open>U+00A0\<close>.\<close>

definition is_space :: "char \<Rightarrow> bool" where
  "is_space c = (c \<in> {CHR 0x09, CHR 0x0A, CHR 0x0B, CHR 0x0C, CHR 0x0D, CHR 0x20, CHR 0xA0})"

text \<open>The class \<open>.\<close>: every character but the line terminators.\<close>

definition is_dot :: "char \<Rightarrow> bool" where
  "is_dot c = (c \<noteq> CHR 0x0A \<and> c \<noteq> CHR 0x0D)"

text \<open>\<open>s.toLowerCase()\<close>: every capital letter, of ASCII or of the rest of Latin-1, becomes
  its small letter.\<close>

definition toLowerChar :: "char \<Rightarrow> char" where
  "toLowerChar c =
     (case map_of (zip upper_chars lower_chars) c of
        Some l \<Rightarrow> l
      | None \<Rightarrow> (case map_of (zip latin_upper_chars latin_lower_chars) c of
                   Some l \<Rightarrow> l
                 | None \<Rightarrow> c))"

definition toLowerCase :: "string \<Rightarrow> string" where
  "toLowerCase s = map toLowerChar s"

text \<open>\<open>c.toUpperCase()\<close> for a string \<open>c\<close> of one character, as a string: every small letter
  becomes its capital, and the sharp s \<open>U+00DF\<close> becomes \<open>SS\<close>. The capitals of the micro
  sign \<open>U+00B5\<close> and of the y with diaeresis \<open>U+00FF\<close> are \<open>U+039C\<close> and \<open>U+0178\<close>, which
  no \<open>char\<close> holds: for these two the model has no value to give and leaves the character
  as it is. The properties below that follow a capital through the code are stated for
  the letters of ASCII.\<close>

definition toUpperChar :: "char \<Rightarrow> string" where
  "toUpperChar c =
     (if c = CHR 0xDF then ''SS''
      else (case map_of (zip lower_chars upper_chars) c of
              Some u \<Rightarrow> [u]
            | None \<Rightarrow> (case map_of (zip latin_lower_chars latin_upper_chars) c of
                         Some u \<Rightarrow> [u]
                       | None \<Rightarrow> [c])))"

definition trim :: "string \<Rightarrow> string" where
  "trim s = rev (dropWhile is_space (rev (dropWhile is_space s)))"

text \<open>\<open>xs.join(sep)\<close>.\<close>

fun join :: "string \<Rightarrow> string list \<Rightarrow> string" where
  "join sep [] = []"
| "join sep [x] = x"
| "join sep (x # y # ys) = x @ sep @ join sep (y # ys)"

text \<open>\<open>s.startsWith(p)\<close> and \<open>s.includes(p)\<close>.\<close>

definition startsWith :: "string \<Rightarrow> string \<Rightarrow> bool" where
  "startsWith s p = (take (length p) s = p)"

fun str_includes :: "string \<Rightarrow> string \<Rightarrow> bool" where
  "str_includes [] p = (p = [])"
| "str_includes (c # cs) p = (startsWith (c # cs) p \<or> str_includes cs p)"

text \<open>\<open>s.split(c)\<close> for a one-character separator: an empty string gives one empty piece.\<close>

fun split_char :: "char \<Rightarrow> string \<Rightarrow> string \<Rightarrow> string list" where
  "split_char sep cur [] = [cur]"
| "split_char sep cur (c # cs) =
     (if c = sep then cur # split_char sep [] cs else split_char sep (cur @ [c]) cs)"

text \<open>\<open>s.split(/[_-]+/)\<close>: a run of separators splits once; a leading or trailing run
  leaves an empty piece. The flag says that the previous character was a separator.\<close>

fun split_runs :: "bool \<Rightarrow> string \<Rightarrow> string \<Rightarrow> string list" where
  "split_runs in_sep cur [] = [cur]"
| "split_runs in_sep cur (c # cs) =
     (if c = CHR ''_'' \<or> c = CHR ''-''
      then (if in_sep then split_runs True cur cs else cur # split_runs True [] cs)
      else split_runs False (cur @ [c]) cs)"

text \<open>The decimal text of a number, as a template literal prints it.\<close>

fun digit_char :: "nat \<Rightarrow> char" where
  "digit_char n = digit_chars ! (n mod 10)"

function show_nat :: "nat \<Rightarrow> string" where
  "show_nat n = (if n < 10 then [digit_char n] else show_nat (n div 10) @ [digit_char n])"
  by pat_completeness auto
termination
  by (relation "measure (\<lambda>n. n)") auto

definition show_int :: "int \<Rightarrow> string" where
  "show_int i = (if i < 0 then CHR ''-'' # show_nat (nat (- i)) else show_nat (nat i))"

text \<open>\<open>parseInt\<close> on a string of decimal digits.\<close>

fun digit_val :: "char \<Rightarrow> nat" where
  "digit_val c = length (takeWhile (\<lambda>d. d \<noteq> c) digit_chars)"

fun parse_digits :: "nat \<Rightarrow> string \<Rightarrow> nat" where
  "parse_digits acc [] = acc"
| "parse_digits acc (c # cs) = parse_digits (10 * acc + digit_val c) cs"

definition parseInt :: "string \<Rightarrow> int" where
  "parseInt s = int (parse_digits 0 s)"

definition whitespace_only :: "string \<Rightarrow> bool" where
  "whitespace_only s = (s \<noteq> [] \<and> list_all is_space s)"

section \<open>Case converters\<close>

text \<open>\<open>str.replace(/([A-Z])/g, (match, p1, offset) => (offset > 0 ? "_" : "") + p1.toLowerCase())\<close>:
  every capital is replaced, at its offset, by its lower-case letter, with an underscore
  before it unless it stands first.\<close>

fun snake_from :: "nat \<Rightarrow> string \<Rightarrow> string" where
  "snake_from offset [] = []"
| "snake_from offset (c # cs) =
     (if is_upper c
      then (if offset > 0 then ''_'' else '''') @ [toLowerChar c]
      else [c]) @ snake_from (Suc offset) cs"

definition SnakeCase :: "string \<Rightarrow> string" where
  "SnakeCase str = (if str = [] then [] else snake_from 0 str)"

text \<open>\<open>w.charAt(0).toUpperCase() + w.slice(1).toLowerCase()\<close>.\<close>

fun capitalize :: "string \<Rightarrow> string" where
  "capitalize [] = []"
| "capitalize (c # cs) = toUpperChar c @ toLowerCase cs"

definition PascalCase :: "string \<Rightarrow> string" where
  "PascalCase v =
     concat (map (\<lambda>word. join '' '' (map capitalize (split_char CHR '' '' [] word)))
                 (split_runs False [] v))"

text \<open>
  The canonical snake case of a token, in the words of the specification, which takes the
  values of an enum as snake-case tokens without regard to letter case: the words of the
  token, in lower case, joined by underscores. The words are what stands between the
  separators, underscore or hyphen; the case of a letter plays no part in finding them.
  A token is in the domain of the canonical form when every word is made of ASCII letters
  and digits, the first word is not empty, and every later word starts with a letter.
\<close>

fun words_from :: "string \<Rightarrow> string \<Rightarrow> string list" where
  "words_from cur [] = [cur]"
| "words_from cur (c # cs) =
     (if c = CHR ''_'' \<or> c = CHR ''-'' then cur # words_from [] cs else words_from (cur @ [c]) cs)"

definition token_words :: "string \<Rightarrow> string list" where
  "token_words v = words_from [] v"

definition canonical_snake :: "string \<Rightarrow> string" where
  "canonical_snake v = join ''_'' (map toLowerCase (token_words v))"

definition is_alnum :: "char \<Rightarrow> bool" where
  "is_alnum c = (is_upper c \<or> is_lower c \<or> is_digit c)"

fun later_word :: "string \<Rightarrow> bool" where
  "later_word [] = False"
| "later_word (c # cs) = ((is_upper c \<or> is_lower c) \<and> list_all is_alnum cs)"

fun snake_words :: "string list \<Rightarrow> bool" where
  "snake_words [] = False"
| "snake_words (w # ws) = (w \<noteq> [] \<and> list_all is_alnum w \<and> list_all later_word ws)"

definition snake_token :: "string \<Rightarrow> bool" where
  "snake_token v = snake_words (token_words v)"

section \<open>Data model\<close>

datatype DefaultValue = DString string | DNumber int | DBoolean bool

record ReferenceDefinition =
  ref_table :: string
  ref_column :: string

record ColumnOptions =
  notNull :: "bool option"
  primaryKey :: "bool option"
  default_opt :: "DefaultValue option"
  length_opt :: "int option"
  enumValues :: "string option"
  references :: "ReferenceDefinition option"

record ColumnDefinition =
  col_name :: string
  col_type :: "string option"
  col_options :: "ColumnOptions option"

record EnumDefinition =
  enum_name :: string
  enum_values :: "string list"

record HelperDefinition =
  helper_name :: string
  helper_columns :: "ColumnDefinition list"

record TableDefinition =
  table_name :: string
  dbName :: "string option"
  columns :: "ColumnDefinition list"
  helperReferences :: "string list option"
  compositePrimaryKey :: "string list option"

text \<open>The import map: an object from import path to the names imported from it, in
  insertion order.\<close>

type_synonym ImportMap = "(string \<times> string list) list"

record ColumnGeneratorResult =
  column :: string
  col_imports :: ImportMap
  col_tables :: "string list"
  col_error :: "string option"

record HelperGeneratorResult =
  helperCode :: string
  helper_imports :: ImportMap
  helper_tables :: "string list"
  helper_error :: "string option"

record EnumGeneratorResult =
  enumCode :: string
  enum_imports :: ImportMap
  enum_error :: "string option"

record TableGeneratorResult =
  tableCode :: string
  table_imports :: ImportMap
  table_tables :: "string list"
  table_error :: "string option"

text \<open>The empty options object \<open>{}\<close>.\<close>

definition no_options :: ColumnOptions where
  "no_options = \<lparr>notNull = None, primaryKey = None, default_opt = None, length_opt = None,
                  enumValues = None, references = None\<rparr>"

section \<open>Type map and import map\<close>

text \<open>\<open>TypeMap[key]\<close>. The map is a plain object, so the two lower-case property names it
  inherits from \<open>Object.prototype\<close> are found too: \<open>constructor\<close> (the function
  \<open>Object\<close>) and \<open>__proto__\<close> (the prototype object); both are truthy, and the model
  gives them the text they have when concatenated into a string.\<close>

definition TypeMap :: "string \<Rightarrow> string option" where
  "TypeMap key = map_of
     [(''serial'', ''serial''),
      (''string'', ''varchar''),
      (''text'', ''text''),
      (''number'', ''integer''),
      (''bigint'', ''bigint''),
      (''boolean'', ''boolean''),
      (''date'', ''timestamp''),
      (''json'', ''jsonb''),
      (''uuid'', ''uuid''),
      (''enum'', ''pgEnum''),
      (''constructor'', ''function Object() { [native code] }''),
      (''__proto__'', ''[object Object]'')] key"

text \<open>\<open>addImportToMap\<close>, and \<open>ImportManager.addImport\<close>, which has the same body.\<close>

fun addImportToMap :: "ImportMap \<Rightarrow> string \<Rightarrow> string \<Rightarrow> ImportMap" where
  "addImportToMap [] importPath importName = [(importPath, [importName])]"
| "addImportToMap ((p, names) # rest) importPath importName =
     (if p = importPath
      then (p, if importName \<in> set names then names else names @ [importName]) # rest
      else (p, names) # addImportToMap rest importPath importName)"

text \<open>\<open>ImportManager.addImports\<close> and \<open>ImportManager.merge\<close>.\<close>

fun addImports :: "ImportMap \<Rightarrow> string \<Rightarrow> string list \<Rightarrow> ImportMap" where
  "addImports imports importPath [] = imports"
| "addImports imports importPath (n # ns) = addImports (addImportToMap imports importPath n) importPath ns"

fun merge_imports :: "ImportMap \<Rightarrow> ImportMap \<Rightarrow> ImportMap" where
  "merge_imports imports [] = imports"
| "merge_imports imports ((p, names) # rest) = merge_imports (addImports imports p names) rest"

text \<open>\<open>[...new Set(xs)]\<close>: the first occurrence of each element, in order.\<close>

fun dedupe :: "'a list \<Rightarrow> 'a list \<Rightarrow> 'a list" where
  "dedupe seen [] = seen"
| "dedupe seen (x # xs) = dedupe (if x \<in> set seen then seen else seen @ [x]) xs"

definition imported :: "ImportMap \<Rightarrow> string \<Rightarrow> string list" where
  "imported imports importPath = (case map_of imports importPath of None \<Rightarrow> [] | Some names \<Rightarrow> names)"

definition pg_core_clean :: "ImportMap \<Rightarrow> bool" where
  "pg_core_clean imports =
     list_all (\<lambda>(p, names). p = ''drizzle-orm/pg-core'' \<longrightarrow> ''primaryKey'' \<notin> set names) imports"

section \<open>Column generator\<close>

text \<open>Truthiness of the optional fields a condition tests: a string is truthy when it is
  present and not empty, a number when it is present and not zero, a boolean when it is
  \<open>true\<close>.\<close>

definition truthy_str :: "string option \<Rightarrow> bool" where
  "truthy_str v = (case v of None \<Rightarrow> False | Some s \<Rightarrow> s \<noteq> [])"

definition truthy_num :: "int option \<Rightarrow> bool" where
  "truthy_num v = (case v of None \<Rightarrow> False | Some n \<Rightarrow> n \<noteq> 0)"

definition truthy_bool :: "bool option \<Rightarrow> bool" where
  "truthy_bool v = (v = Some True)"

text \<open>A value inside a template literal: \<open>undefined\<close> prints as the word.\<close>

definition str_of :: "string option \<Rightarrow> string" where
  "str_of v = (case v of None \<Rightarrow> ''undefined'' | Some s \<Rightarrow> s)"

definition quoted :: "string \<Rightarrow> string" where
  "quoted s = [QT] @ s @ [QT]"

text \<open>The options of a definition: \<open>const { name, type, options = {} } = definition\<close>.\<close>

definition options_of :: "ColumnDefinition \<Rightarrow> ColumnOptions" where
  "options_of definition = (case col_options definition of None \<Rightarrow> no_options | Some opts \<Rightarrow> opts)"

text \<open>Lines 19 to 27 of \<open>ColumnGenerator\<close>: the type given, or \<open>enum\<close> when no type is
  given and \<open>enumValues\<close> is; \<open>None\<close> is the error return.\<close>

definition inferType :: "string option \<Rightarrow> ColumnOptions \<Rightarrow> string option" where
  "inferType type options =
     (if truthy_str type then type
      else if truthy_str (enumValues options) then Some ''enum''
      else None)"

text \<open>\<open>defaultValue.replace(/^sql\.(\w+)\(\)$/, "sql`$1()`")\<close> on a string that starts with
  \<open>sql.\<close>: the pattern matches when the rest is one or more word characters and then
  \<open>()\<close> up to the end; otherwise the string is returned as it is.\<close>

definition sqlFunction :: "string \<Rightarrow> string" where
  "sqlFunction defaultValue =
     (let rest = drop 4 defaultValue;
          fn = takeWhile is_word rest
      in if startsWith defaultValue ''sql.'' \<and> fn \<noteq> [] \<and> dropWhile is_word rest = ''()''
         then ''sql'' @ [BQ] @ fn @ ''()'' @ [BQ]
         else defaultValue)"

text \<open>Lines 70 to 89: the text of \<open>.default(...)\<close> and whether \<open>sql\<close> is imported.\<close>

definition defaultCode :: "bool \<Rightarrow> DefaultValue \<Rightarrow> string \<times> bool" where
  "defaultCode isEnumType dv =
     (case dv of
        DNumber n \<Rightarrow> (show_int n, False)
      | DBoolean b \<Rightarrow> (if b then ''true'' else ''false'', False)
      | DString defaultValue \<Rightarrow>
          if defaultValue = ''sql.now()'' then (''sql'' @ [BQ] @ ''now()'' @ [BQ], True)
          else if startsWith defaultValue ''sql.'' then (sqlFunction defaultValue, True)
          else if \<not> str_includes defaultValue ''('' \<and> \<not> str_includes defaultValue ''.''
                  \<and> \<not> str_includes defaultValue [BQ]
          then (if isEnumType then (quoted (PascalCase defaultValue), False)
                else (quoted defaultValue, False))
          else (defaultValue, False))"

definition column_failed :: "string \<Rightarrow> ColumnGeneratorResult" where
  "column_failed msg = \<lparr>column = [], col_imports = [], col_tables = [], col_error = Some msg\<rparr>"

definition ColumnGenerator :: "ColumnDefinition \<Rightarrow> ColumnGeneratorResult" where
  "ColumnGenerator definition =
    (let name = col_name definition;
         options = options_of definition
     in case inferType (col_type definition) options of
       None \<Rightarrow> column_failed (''Type is required for column '' @ quoted name @
                 ''. Provide either '' @ quoted ''type'' @ '' property or '' @
                 quoted ''enumValues'' @ '' in options.'')
     | Some inferredType \<Rightarrow>
        (case TypeMap (toLowerCase inferredType) of
           None \<Rightarrow> column_failed (''Unsupported type '' @ quoted inferredType @
                     '' for column '' @ quoted name @ ''.'')
         | Some drizzleFunc \<Rightarrow>
            (let isEnumType = (toLowerCase inferredType = ''enum'');
                 isEnum = (isEnumType \<and> truthy_str (enumValues options));
                 imports1 = (if \<not> isEnumType
                             then addImportToMap [] ''drizzle-orm/pg-core'' drizzleFunc else []);
                 functionArgs =
                   (if drizzleFunc = ''varchar'' \<and> truthy_num (length_opt options)
                    then [quoted name,
                          ''{ length: '' @ (case length_opt options of Some n \<Rightarrow> show_int n
                                            | None \<Rightarrow> ''255'') @ '' }'']
                    else [quoted name]);
                 imports2 = (if \<not> (drizzleFunc = ''varchar'' \<and> truthy_num (length_opt options)) \<and> isEnum
                             then addImportToMap imports1 ''../enums/index.js'' (str_of (enumValues options))
                             else imports1);
                 code1 = (if isEnum
                          then name @ '': '' @ str_of (enumValues options) @ ''('' @ join '', '' functionArgs
                          else name @ '': '' @ drizzleFunc @ ''('' @ join '', '' functionArgs) @ '')'';
                 code2 = code1 @ (if truthy_bool (primaryKey options) then ''.primaryKey()'' else []);
                 code3 = code2 @ (if truthy_bool (notNull options) then ''.notNull()'' else []);
                 code4 = (case default_opt options of
                            None \<Rightarrow> code3
                          | Some dv \<Rightarrow> code3 @ ''.default('' @ fst (defaultCode isEnumType dv) @ '')'');
                 imports3 = (case default_opt options of
                               None \<Rightarrow> imports2
                             | Some dv \<Rightarrow> if snd (defaultCode isEnumType dv)
                                          then addImportToMap imports2 ''drizzle-orm'' ''sql''
                                          else imports2);
                 code5 = (case references options of
                            None \<Rightarrow> code4
                          | Some r \<Rightarrow> code4 @ ''.references(() => '' @ ref_table r @ ''.'' @ ref_column r @ '')'');
                 imports4 = (case references options of
                               None \<Rightarrow> imports3
                             | Some r \<Rightarrow> addImportToMap imports3 ''../tables/index.js'' (ref_table r));
                 tables = (case references options of None \<Rightarrow> [] | Some r \<Rightarrow> [ref_table r])
             in \<lparr>column = code5 @ '','', col_imports = imports4,
                 col_tables = dedupe [] tables, col_error = None\<rparr>)))"

section \<open>Entity generators\<close>

text \<open>\<open>columnResult.column.replace(/,$/, "")\<close> (helpers) and \<open>.replace(/,+$/, "")\<close> (tables):
  one trailing comma, or the whole trailing run of commas, is removed.\<close>

definition strip_comma :: "string \<Rightarrow> string" where
  "strip_comma s = (if s \<noteq> [] \<and> last s = CHR '','' then butlast s else s)"

definition strip_commas :: "string \<Rightarrow> string" where
  "strip_commas s = rev (dropWhile (\<lambda>c. c = CHR '','') (rev s))"

text \<open>The loop over the columns of a helper: the codes, imports and tables gathered so
  far are passed on; the first column with an error ends the loop with its message.\<close>

fun helper_columns_loop ::
  "ColumnDefinition list \<Rightarrow> string list \<Rightarrow> ImportMap \<Rightarrow> string list
     \<Rightarrow> string + (string list \<times> ImportMap \<times> string list)" where
  "helper_columns_loop [] columnCodes imports allTables = Inr (columnCodes, imports, allTables)"
| "helper_columns_loop (columnDef # rest) columnCodes imports allTables =
     (let columnResult = ColumnGenerator columnDef
      in if truthy_str (col_error columnResult)
         then Inl (''Error in column '' @ quoted (col_name columnDef) @ '': '' @
                   str_of (col_error columnResult))
         else helper_columns_loop rest
                (columnCodes @ [''    '' @ strip_comma (column columnResult)])
                (merge_imports imports (col_imports columnResult))
                (allTables @ col_tables columnResult))"

definition helper_failed :: "string \<Rightarrow> HelperGeneratorResult" where
  "helper_failed msg = \<lparr>helperCode = [], helper_imports = [], helper_tables = [],
                         helper_error = Some msg\<rparr>"

definition HelperGenerator :: "HelperDefinition \<Rightarrow> HelperGeneratorResult" where
  "HelperGenerator definition =
    (let name = helper_name definition; cols = helper_columns definition
     in if name = [] \<or> trim name = [] then helper_failed ''Helper name is required.''
        else if cols = [] then helper_failed ''At least one column is required for a helper.''
        else (case helper_columns_loop cols [] [] [] of
                Inl msg \<Rightarrow> helper_failed msg
              | Inr (columnCodes, imports, allTables) \<Rightarrow>
                  \<lparr>helperCode = ''export const '' @ name @ '' = {'' @ [NL] @
                                 join ('','' @ [NL]) columnCodes @ [NL] @ ''};'',
                   helper_imports = imports,
                   helper_tables = dedupe [] allTables,
                   helper_error = None\<rparr>))"

definition EnumGenerator :: "EnumDefinition \<Rightarrow> EnumGeneratorResult" where
  "EnumGenerator definition =
    (let name = enum_name definition; vals = enum_values definition
     in if name = [] \<or> vals = []
        then \<lparr>enumCode = [], enum_imports = [],
              enum_error = Some ''Enum name and values are mandatory.''\<rparr>
        else \<lparr>enumCode = ''export const '' @ name @ '' = pgEnum('' @ quoted (SnakeCase name) @
                           '', ['' @ join '', '' (map (\<lambda>v. quoted (PascalCase v)) vals) @
                           ''] as const);'',
              enum_imports = [(''drizzle-orm/pg-core'', [''pgEnum''])],
              enum_error = None\<rparr>)"

text \<open>The loop over the columns of a table; it differs from the helper's in the commas
  it strips.\<close>

fun table_columns_loop ::
  "ColumnDefinition list \<Rightarrow> string list \<Rightarrow> ImportMap \<Rightarrow> string list
     \<Rightarrow> string + (string list \<times> ImportMap \<times> string list)" where
  "table_columns_loop [] columnCodes imports allTables = Inr (columnCodes, imports, allTables)"
| "table_columns_loop (columnDef # rest) columnCodes imports allTables =
     (let columnResult = ColumnGenerator columnDef
      in if truthy_str (col_error columnResult)
         then Inl (''Error in column '' @ quoted (col_name columnDef) @ '': '' @
                   str_of (col_error columnResult))
         else table_columns_loop rest
                (columnCodes @ [''    '' @ strip_commas (column columnResult)])
                (merge_imports imports (col_imports columnResult))
                (allTables @ col_tables columnResult))"

definition table_failed :: "string \<Rightarrow> TableGeneratorResult" where
  "table_failed msg = \<lparr>tableCode = [], table_imports = [], table_tables = [],
                        table_error = Some msg\<rparr>"

text \<open>Lines 64 to 71 of \<open>TableGenerator\<close>: the constraint block of a composite primary
  key of two or more columns, and the empty string otherwise.\<close>

definition compositePKCode :: "string \<Rightarrow> string list option \<Rightarrow> string" where
  "compositePKCode name cpk =
     (case cpk of
        None \<Rightarrow> []
      | Some cols \<Rightarrow>
          if length cols > 1
          then (let tableVarName = toLowerCase name;
                    pkColumns = join '', '' (map (\<lambda>col. tableVarName @ ''.'' @ col) cols)
                in '', ('' @ tableVarName @ '') => ({'' @ [NL] @
                   ''    compositePK: primaryKey({ columns: ['' @ pkColumns @ ''] })'' @ [NL] @ ''})'')
          else [])"

definition TableGenerator :: "TableDefinition \<Rightarrow> TableGeneratorResult" where
  "TableGenerator definition =
    (let name = table_name definition;
         helperRefs = (case helperReferences definition of None \<Rightarrow> [] | Some hs \<Rightarrow> hs)
     in if name = [] \<or> trim name = [] then table_failed ''Table name is required.''
        else if columns definition = [] \<and> helperRefs = []
        then table_failed ''Table must have at least one column or helper reference.''
        else (case table_columns_loop (columns definition) []
                     (addImportToMap [] ''drizzle-orm/pg-core'' ''pgTable'') [] of
                Inl msg \<Rightarrow> table_failed msg
              | Inr (columnCodes, imports1, allTables) \<Rightarrow>
                 (let imports2 = addImports imports1 ''../helpers/index.js'' helperRefs;
                      helperSpreads = map (\<lambda>helper. ''    ...'' @ helper) helperRefs;
                      tableName = (if truthy_str (dbName definition) then str_of (dbName definition)
                                   else SnakeCase name);
                      allColumnEntries = columnCodes @ helperSpreads;
                      tableStructure = (if allColumnEntries \<noteq> []
                                        then ''{'' @ [NL] @ join ('','' @ [NL]) allColumnEntries @ [NL] @ ''}''
                                        else ''{}'');
                      imports3 = (case compositePrimaryKey definition of
                                    None \<Rightarrow> imports2
                                  | Some cols \<Rightarrow> if length cols > 1
                                       then addImportToMap imports2 ''drizzle-orm/pg-core'' ''primaryKey''
                                       else imports2);
                      tableVarName = toLowerCase name
                  in \<lparr>tableCode = ''export const '' @ tableVarName @ '' = pgTable('' @ quoted tableName @
                                    '', '' @ tableStructure @
                                    compositePKCode name (compositePrimaryKey definition) @ '');'',
                      table_imports = imports3,
                      table_tables = dedupe [] allTables,
                      table_error = None\<rparr>)))"

text \<open>The entries of the object a table is declared with: the indented code of a column,
  as the loop gathers it, and the spread of a helper.\<close>

definition column_entry :: "ColumnDefinition \<Rightarrow> string" where
  "column_entry c = ''    '' @ strip_commas (column (ColumnGenerator c))"

definition helper_spread :: "string \<Rightarrow> string" where
  "helper_spread helper = ''    ...'' @ helper"

section \<open>Regular expressions\<close>

text \<open>
  The reader takes its input apart with regular expressions. A pattern is a list of
  atoms, matched from left to right by backtracking as the source's engine does: a greedy
  repetition first takes as many characters as it can and gives them back one at a time
  when the rest of the pattern fails; a lazy repetition first takes none; an optional
  group is first tried and then skipped. A capture group is a pair \<open>Open n\<close>,
  \<open>Close n\<close>: at \<open>Open\<close> the input still to be read is recorded, at \<open>Close\<close> it is replaced
  by what was read since. The patterns of the source only repeat single character
  classes, so these atoms suffice.
\<close>

datatype atom =
    Lit char
  | One "char \<Rightarrow> bool"
  | Star "char \<Rightarrow> bool"
  | Lazy "char \<Rightarrow> bool"
  | Open nat
  | Close nat
  | Opt "atom list"
  | End

type_synonym captures = "(nat \<times> string) list"

definition lit :: "string \<Rightarrow> atom list" where
  "lit s = map Lit s"

text \<open>\<open>x+\<close> in a capture group: \<open>(x+)\<close>.\<close>

definition group_plus :: "nat \<Rightarrow> (char \<Rightarrow> bool) \<Rightarrow> atom list" where
  "group_plus n P = [Open n, One P, Star P, Close n]"

definition close_group :: "nat \<Rightarrow> string \<Rightarrow> captures \<Rightarrow> captures" where
  "close_group n s caps =
     (case map_of caps n of
        None \<Rightarrow> caps
      | Some opened \<Rightarrow> (n, take (length opened - length s) opened) # caps)"

text \<open>\<open>rmatch pattern input captures\<close>: the match of the pattern at the start of the input,
  as the captures and the input left over, or \<open>None\<close>.\<close>

function (sequential) rmatch :: "atom list \<Rightarrow> string \<Rightarrow> captures \<Rightarrow> (captures \<times> string) option" where
  "rmatch [] s caps = Some (caps, s)"
| "rmatch (Lit c # rs) [] caps = None"
| "rmatch (Lit c # rs) (x # xs) caps = (if x = c then rmatch rs xs caps else None)"
| "rmatch (One P # rs) [] caps = None"
| "rmatch (One P # rs) (x # xs) caps = (if P x then rmatch rs xs caps else None)"
| "rmatch (Star P # rs) [] caps = rmatch rs [] caps"
| "rmatch (Star P # rs) (x # xs) caps =
     (if P x
      then (case rmatch (Star P # rs) xs caps of
              Some r \<Rightarrow> Some r
            | None \<Rightarrow> rmatch rs (x # xs) caps)
      else rmatch rs (x # xs) caps)"
| "rmatch (Lazy P # rs) [] caps = rmatch rs [] caps"
| "rmatch (Lazy P # rs) (x # xs) caps =
     (case rmatch rs (x # xs) caps of
        Some r \<Rightarrow> Some r
      | None \<Rightarrow> if P x then rmatch (Lazy P # rs) xs caps else None)"
| "rmatch (Open n # rs) s caps = rmatch rs s ((n, s) # caps)"
| "rmatch (Close n # rs) s caps = rmatch rs s (close_group n s caps)"
| "rmatch (Opt os # rs) s caps =
     (case rmatch (os @ rs) s caps of
        Some r \<Rightarrow> Some r
      | None \<Rightarrow> rmatch rs s caps)"
| "rmatch (End # rs) s caps = (if s = [] then rmatch rs s caps else None)"
  by pat_completeness auto
termination
  by (relation "measures [\<lambda>(rs, s, caps). size_list size rs, \<lambda>(rs, s, caps). length s]")
     auto

text \<open>\<open>input.match(pattern)\<close> without the global flag: the leftmost match. The result is
  the captures, the input from the start of the match, and the input after the match.\<close>

fun rsearch :: "atom list \<Rightarrow> string \<Rightarrow> (captures \<times> string \<times> string) option" where
  "rsearch r [] = (case rmatch r [] [] of Some (caps, rest) \<Rightarrow> Some (caps, [], rest) | None \<Rightarrow> None)"
| "rsearch r (x # xs) =
     (case rmatch r (x # xs) [] of
        Some (caps, rest) \<Rightarrow> Some (caps, x # xs, rest)
      | None \<Rightarrow> rsearch r xs)"

text \<open>The text of capture group \<open>n\<close> of a match.\<close>

definition cap :: "captures \<Rightarrow> nat \<Rightarrow> string" where
  "cap caps n = (case map_of caps n of None \<Rightarrow> [] | Some t \<Rightarrow> t)"

text \<open>\<open>input.match(pattern)\<close> with the global flag: the texts of all matches, each search
  starting where the previous match ended. \<open>skip\<close> counts the characters still inside the
  previous match. The empty list stands for \<open>null\<close>.\<close>

fun match_all :: "atom list \<Rightarrow> nat \<Rightarrow> string \<Rightarrow> string list" where
  "match_all r skip [] =
     (if skip = 0 then (case rmatch r [] [] of Some m \<Rightarrow> [[]] | None \<Rightarrow> []) else [])"
| "match_all r skip (x # xs) =
     (if skip > 0 then match_all r (skip - 1) xs
      else (case rmatch r (x # xs) [] of
              Some (caps, rest) \<Rightarrow>
                (let k = length (x # xs) - length rest
                 in take k (x # xs) # match_all r (k - 1) xs)
            | None \<Rightarrow> match_all r 0 xs))"



section \<open>Schema reader\<close>


definition not_char :: "char \<Rightarrow> char \<Rightarrow> bool" where
  "not_char d c = (c \<noteq> d)"

subsection \<open>Enums\<close>

text \<open>\<open>/export const (\w+) = pgEnum\('([^']+)', \[([^\]]+)\] as const\);/\<close>\<close>

definition enum_pattern :: "atom list" where
  "enum_pattern =
     lit ''export const '' @ group_plus 1 is_word @ lit '' = pgEnum('' @ [Lit QT] @
     group_plus 2 (not_char QT) @ [Lit QT] @ lit '', ['' @
     group_plus 3 (not_char CHR '']'') @ lit ''] as const);''"

text \<open>\<open>/'([^']+)'/g\<close>\<close>

definition quoted_value_pattern :: "atom list" where
  "quoted_value_pattern = [Lit QT] @ group_plus 1 (not_char QT) @ [Lit QT]"

definition parseEnumContent ::
  "string \<Rightarrow> string \<Rightarrow> string list \<Rightarrow> EnumDefinition option \<times> string list" where
  "parseEnumContent content filename errors =
     (case rsearch enum_pattern content of
        None \<Rightarrow> (None, errors @ [''Could not parse enum in '' @ filename])
      | Some (caps, from, rest) \<Rightarrow>
          (let name = cap caps 1;
               valuesString = cap caps 3;
               valuesMatch = match_all quoted_value_pattern 0 valuesString
           in if valuesMatch = []
              then (None, errors @ [''Could not parse enum values in '' @ filename])
              else (Some \<lparr>enum_name = name,
                          enum_values = map (\<lambda>v. snake_from 0 (filter (\<lambda>c. c \<noteq> QT) v)) valuesMatch\<rparr>,
                    errors)))"

subsection \<open>Columns\<close>

text \<open>The reader's own map from constructor names back to types. \<open>typeMap[key]\<close> is also
  truthy for every property name that a plain object inherits.\<close>

definition reader_typeMap :: "(string \<times> string) list" where
  "reader_typeMap =
     [(''serial'', ''serial''),
      (''varchar'', ''string''),
      (''text'', ''text''),
      (''integer'', ''number''),
      (''bigint'', ''bigint''),
      (''boolean'', ''boolean''),
      (''timestamp'', ''date''),
      (''jsonb'', ''json''),
      (''uuid'', ''uuid'')]"

definition object_prototype_keys :: "string list" where
  "object_prototype_keys =
     [''constructor'', ''hasOwnProperty'', ''isPrototypeOf'', ''propertyIsEnumerable'',
      ''toLocaleString'', ''toString'', ''valueOf'', ''__defineGetter__'', ''__defineSetter__'',
      ''__lookupGetter__'', ''__lookupSetter__'', ''__proto__'']"

definition typeMap_truthy :: "string \<Rightarrow> bool" where
  "typeMap_truthy key = (key \<in> set (map fst reader_typeMap) \<or> key \<in> set object_prototype_keys)"

text \<open>\<open>/^(\w+)\(/\<close>\<close>

definition enum_call_pattern :: "atom list" where
  "enum_call_pattern = group_plus 1 is_word @ lit ''(''"

text \<open>\<open>/\.default\('([^']+)'\)/\<close>\<close>

definition enum_default_pattern :: "atom list" where
  "enum_default_pattern = lit ''.default('' @ [Lit QT] @ group_plus 1 (not_char QT) @ [Lit QT] @ lit '')''"

text \<open>\<open>/\{ length: (\d+) \}/\<close>\<close>

definition length_pattern :: "atom list" where
  "length_pattern = lit ''{ length: '' @ group_plus 1 is_digit @ lit '' }''"

text \<open>\<open>/\.default\(([^)]+)\)/\<close>\<close>

definition default_pattern :: "atom list" where
  "default_pattern = lit ''.default('' @ group_plus 1 (not_char CHR '')'') @ lit '')''"

text \<open>\<open>/^\d+$/\<close>\<close>

definition digits_pattern :: "atom list" where
  "digits_pattern = [One is_digit, Star is_digit, End]"

text \<open>\<open>/sql`([^`]+)`/\<close>\<close>

definition sql_pattern :: "atom list" where
  "sql_pattern = lit ''sql'' @ [Lit BQ] @ group_plus 1 (not_char BQ) @ [Lit BQ]"

text \<open>\<open>/\.references\(\(\) => (\w+)\.(\w+)\)/\<close>\<close>

definition references_pattern :: "atom list" where
  "references_pattern =
     lit ''.references(() => '' @ group_plus 1 is_word @ lit ''.'' @ group_plus 2 is_word @ lit '')''"

text \<open>The first entry of the reader's map whose constructor name, followed by an opening
  parenthesis, starts the definition.\<close>

fun regular_type :: "(string \<times> string) list \<Rightarrow> string \<Rightarrow> string option" where
  "regular_type [] definition = None"
| "regular_type ((drizzleType, ourType) # rest) definition =
     (if startsWith definition (drizzleType @ ''('') then Some ourType
      else regular_type rest definition)"

text \<open>Lines 501 to 518 of the reader: the default value of a column that is not an enum
  column; \<open>None\<close> when nothing is assigned.\<close>

definition parseDefault :: "string \<Rightarrow> DefaultValue option" where
  "parseDefault definition =
     (if str_includes definition ''.default(''
      then (case rsearch default_pattern definition of
              None \<Rightarrow> None
            | Some (caps, from, rest) \<Rightarrow>
               (let defaultValue = cap caps 1
                in if defaultValue = ''true'' \<or> defaultValue = ''false''
                   then Some (DBoolean (defaultValue = ''true''))
                   else if rmatch digits_pattern defaultValue [] \<noteq> None
                   then Some (DNumber (parseInt defaultValue))
                   else if str_includes defaultValue (''sql'' @ [BQ])
                   then (case rsearch sql_pattern defaultValue of
                           None \<Rightarrow> None
                         | Some (caps2, from2, rest2) \<Rightarrow>
                             Some (DString (''sql.'' @ cap caps2 1 @ ''()'')))
                   else Some (DString (filter (\<lambda>c. c \<noteq> QT) defaultValue))))
      else None)"

text \<open>Lines 475 to 531 of the reader: the type and options of a column that is not an
  enum column.\<close>

definition parseRegularType :: "string \<Rightarrow> string option \<times> ColumnOptions" where
  "parseRegularType definition =
     (regular_type reader_typeMap definition,
      no_options\<lparr>
        length_opt :=
          (if str_includes definition ''{ length:''
           then (case rsearch length_pattern definition of
                   None \<Rightarrow> None
                 | Some (caps, from, rest) \<Rightarrow> Some (parseInt (cap caps 1)))
           else None),
        primaryKey := (if str_includes definition ''.primaryKey()'' then Some True else None),
        notNull := (if str_includes definition ''.notNull()'' then Some True else None),
        default_opt := parseDefault definition,
        references :=
          (if str_includes definition ''.references(''
           then (case rsearch references_pattern definition of
                   None \<Rightarrow> None
                 | Some (caps, from, rest) \<Rightarrow>
                     Some \<lparr>ref_table = cap caps 1, ref_column = cap caps 2\<rparr>)
           else None)\<rparr>)"

text \<open>Lines 456 to 473: a definition that starts with an identifier the reader's map does
  not know is an enum column; its default is the quoted text, lower-cased.\<close>

definition parseEnumType :: "string \<Rightarrow> string \<Rightarrow> string option \<times> ColumnOptions" where
  "parseEnumType enumName definition =
     (None,
      no_options\<lparr>
        enumValues := Some enumName,
        default_opt :=
          (if str_includes definition ''.default(''
           then (case rsearch enum_default_pattern definition of
                   None \<Rightarrow> None
                 | Some (caps, from, rest) \<Rightarrow> Some (DString (toLowerCase (cap caps 1))))
           else None),
        notNull := (if str_includes definition ''.notNull()'' then Some True else None)\<rparr>)"

definition parseColumnType :: "string \<Rightarrow> string option \<times> ColumnOptions" where
  "parseColumnType definition =
     (case rmatch enum_call_pattern definition [] of
        Some (caps, rest) \<Rightarrow>
          if \<not> typeMap_truthy (cap caps 1) then parseEnumType (cap caps 1) definition
          else parseRegularType definition
      | None \<Rightarrow> parseRegularType definition)"

text \<open>\<open>/(\w+):\s*(.+)/\<close>\<close>

definition column_pattern :: "atom list" where
  "column_pattern =
     group_plus 1 is_word @ lit '':'' @ [Star is_space] @ group_plus 2 is_dot"

text \<open>\<open>parseColumnDefinition\<close>: the decoder of one line. The type is set when it is
  truthy, the options when some key of them is set.\<close>

definition parseColumnDefinition :: "string \<Rightarrow> ColumnDefinition option" where
  "parseColumnDefinition line =
     (let cleanLine = strip_comma line
      in case rsearch column_pattern cleanLine of
           None \<Rightarrow> None
         | Some (caps, from, rest) \<Rightarrow>
             (let name = cap caps 1;
                  definition = cap caps 2;
                  typeResult = parseColumnType definition
              in Some \<lparr>col_name = name,
                       col_type = (if truthy_str (fst typeResult) then fst typeResult else None),
                       col_options = (if snd typeResult \<noteq> no_options then Some (snd typeResult)
                                      else None)\<rparr>))"

subsection \<open>Tables\<close>











section \<open>Schema change detector\<close>

text \<open>The members of the two string enums, the change types and the target kinds are
  the strings they are at run time, so that an impact outside the enum can be written.\<close>

abbreviation (input) ADDITION :: string where "ADDITION \<equiv> ''addition''"
abbreviation (input) MODIFICATION :: string where "MODIFICATION \<equiv> ''modification''"
abbreviation (input) REMOVAL :: string where "REMOVAL \<equiv> ''removal''"
abbreviation (input) SAFE :: string where "SAFE \<equiv> ''safe''"
abbreviation (input) WARNING :: string where "WARNING \<equiv> ''warning''"
abbreviation (input) BREAKING :: string where "BREAKING \<equiv> ''breaking''"

record Target =
  target_type :: string
  target_name :: string
  target_column :: "string option"

datatype Details =
    ValuesDetails "string list"
  | ValueDetails string
  | TypeFromTo "string option" "string option"
  | DefaultFromTo "DefaultValue option" "DefaultValue option"
  | HelperReferenceDetails string
  | KeyFromTo "string list" "string list"

record SchemaChange =
  change_type :: string
  category :: string
  impact :: string
  description :: string
  target :: Target
  details :: "Details option"

record ProjectGeneratorConfig =
  outputDir :: string
  enums :: "EnumDefinition list option"
  helpers :: "HelperDefinition list option"
  tables :: "TableDefinition list option"
  overwrite :: "bool option"

record Summary =
  totalChanges :: nat
  byCategory :: "(string \<times> nat) list"
  byImpact :: "(string \<times> nat) list"
  byType :: "(string \<times> nat) list"

record CanApply =
  can_safe :: bool
  withWarnings :: bool
  withBreaking :: bool

record SchemaComparison =
  changes :: "SchemaChange list"
  summary :: Summary
  recommendations :: "string list"
  canApply :: CanApply

text \<open>\<open>xs || []\<close> for an optional list.\<close>

definition or_empty :: "'a list option \<Rightarrow> 'a list" where
  "or_empty xs = (case xs of None \<Rightarrow> [] | Some ys \<Rightarrow> ys)"

text \<open>\<open>new Map(entries)\<close>: a key keeps the place of its first entry and the value of its
  last.\<close>

fun map_set :: "'k \<Rightarrow> 'v \<Rightarrow> ('k \<times> 'v) list \<Rightarrow> ('k \<times> 'v) list" where
  "map_set k v [] = [(k, v)]"
| "map_set k v ((k', v') # rest) = (if k' = k then (k, v) # rest else (k', v') # map_set k v rest)"

definition new_Map :: "('k \<times> 'v) list \<Rightarrow> ('k \<times> 'v) list" where
  "new_Map entries = foldl (\<lambda>m (k, v). map_set k v m) [] entries"

definition columns_Map :: "ColumnDefinition list \<Rightarrow> (string \<times> ColumnDefinition) list" where
  "columns_Map cols = new_Map (map (\<lambda>c. (col_name c, c)) cols)"

definition Map_has :: "('k \<times> 'v) list \<Rightarrow> 'k \<Rightarrow> bool" where
  "Map_has m k = (k \<in> set (map fst m))"

definition enum_target :: "string \<Rightarrow> Target" where
  "enum_target name = \<lparr>target_type = ''enum'', target_name = name, target_column = None\<rparr>"

definition compareEnumValues :: "EnumDefinition \<Rightarrow> EnumDefinition \<Rightarrow> SchemaChange list" where
  "compareEnumValues currentEnum newEnum =
     concat (map (\<lambda>v. if v \<notin> set (enum_values currentEnum)
                      then [\<lparr>change_type = ''enum_value_added'', category = ADDITION, impact = SAFE,
                             description = ''Added value '' @ quoted v @ '' to enum '' @
                                           quoted (enum_name newEnum),
                             target = enum_target (enum_name newEnum),
                             details = Some (ValueDetails v)\<rparr>]
                      else []) (enum_values newEnum)) @
     concat (map (\<lambda>v. if v \<notin> set (enum_values newEnum)
                      then [\<lparr>change_type = ''enum_value_removed'', category = REMOVAL, impact = BREAKING,
                             description = ''Removed value '' @ quoted v @ '' from enum '' @
                                           quoted (enum_name newEnum),
                             target = enum_target (enum_name newEnum),
                             details = Some (ValueDetails v)\<rparr>]
                      else []) (enum_values currentEnum))"

definition compareEnums :: "EnumDefinition list \<Rightarrow> EnumDefinition list \<Rightarrow> SchemaChange list" where
  "compareEnums currentEnums newEnums =
     concat (map (\<lambda>newEnum. if enum_name newEnum \<notin> set (map enum_name currentEnums)
                      then [\<lparr>change_type = ''enum_added'', category = ADDITION, impact = SAFE,
                             description = ''Added enum '' @ quoted (enum_name newEnum) @
                                           '' with values: '' @ join '', '' (enum_values newEnum),
                             target = enum_target (enum_name newEnum),
                             details = Some (ValuesDetails (enum_values newEnum))\<rparr>]
                      else []) newEnums) @
     concat (map (\<lambda>currentEnum. if enum_name currentEnum \<notin> set (map enum_name newEnums)
                      then [\<lparr>change_type = ''enum_removed'', category = REMOVAL, impact = BREAKING,
                             description = ''Removed enum '' @ quoted (enum_name currentEnum),
                             target = enum_target (enum_name currentEnum),
                             details = None\<rparr>]
                      else []) currentEnums) @
     concat (map (\<lambda>newEnum. case find (\<lambda>e. enum_name e = enum_name newEnum) currentEnums of
                        None \<Rightarrow> []
                      | Some currentEnum \<Rightarrow> compareEnumValues currentEnum newEnum) newEnums)"

definition compareColumnDefinitions ::
  "ColumnDefinition \<Rightarrow> ColumnDefinition \<Rightarrow> string \<Rightarrow> string \<Rightarrow> SchemaChange list" where
  "compareColumnDefinitions currentColumn newColumn targetType targetName =
     (let currentOptions = options_of currentColumn;
          newOptions = options_of newColumn;
          tgt = \<lparr>target_type = targetType, target_name = targetName,
                 target_column = Some (col_name newColumn)\<rparr>;
          place = '' in '' @ targetType @ '' '' @ quoted targetName
      in (if col_type currentColumn \<noteq> col_type newColumn
          then [\<lparr>change_type = ''column_type_changed'', category = MODIFICATION, impact = BREAKING,
                 description = ''Changed column '' @ quoted (col_name newColumn) @ '' type from '' @
                               quoted (str_of (col_type currentColumn)) @ '' to '' @
                               quoted (str_of (col_type newColumn)) @ place,
                 target = tgt,
                 details = Some (TypeFromTo (col_type currentColumn) (col_type newColumn))\<rparr>]
          else []) @
         (if primaryKey currentOptions \<noteq> primaryKey newOptions
          then [\<lparr>change_type = ''column_primary_key_changed'', category = MODIFICATION,
                 impact = BREAKING,
                 description = (if truthy_bool (primaryKey newOptions) then ''Added'' else ''Removed'') @
                               '' primary key on column '' @ quoted (col_name newColumn) @ place,
                 target = tgt,
                 details = None\<rparr>]
          else []) @
         (if notNull currentOptions \<noteq> notNull newOptions
          then [\<lparr>change_type = ''column_not_null_changed'', category = MODIFICATION,
                 impact = (if truthy_bool (notNull newOptions) then WARNING else SAFE),
                 description = (if truthy_bool (notNull newOptions) then ''Added NOT NULL constraint''
                                else ''Removed NOT NULL constraint'') @
                               '' on column '' @ quoted (col_name newColumn) @ place,
                 target = tgt,
                 details = None\<rparr>]
          else []) @
         (if default_opt currentOptions \<noteq> default_opt newOptions
          then [\<lparr>change_type = ''column_default_changed'', category = MODIFICATION, impact = SAFE,
                 description = ''Changed default value for column '' @ quoted (col_name newColumn) @ place,
                 target = tgt,
                 details = Some (DefaultFromTo (default_opt currentOptions) (default_opt newOptions))\<rparr>]
          else []))"

definition helper_target :: "string \<Rightarrow> string option \<Rightarrow> Target" where
  "helper_target name col = \<lparr>target_type = ''helper'', target_name = name, target_column = col\<rparr>"

definition compareHelperColumns :: "HelperDefinition \<Rightarrow> HelperDefinition \<Rightarrow> SchemaChange list" where
  "compareHelperColumns currentHelper newHelper =
     (let currentColumns = columns_Map (helper_columns currentHelper);
          newColumns = columns_Map (helper_columns newHelper)
      in concat (map (\<lambda>(name, col). if \<not> Map_has currentColumns name
                      then [\<lparr>change_type = ''helper_column_added'', category = ADDITION, impact = SAFE,
                             description = ''Added column '' @ quoted name @ '' to helper '' @
                                           quoted (helper_name newHelper),
                             target = helper_target (helper_name newHelper) (Some name),
                             details = None\<rparr>]
                      else []) newColumns) @
         concat (map (\<lambda>(name, col). if \<not> Map_has newColumns name
                      then [\<lparr>change_type = ''helper_column_removed'', category = REMOVAL,
                             impact = WARNING,
                             description = ''Removed column '' @ quoted name @ '' from helper '' @
                                           quoted (helper_name newHelper),
                             target = helper_target (helper_name newHelper) (Some name),
                             details = None\<rparr>]
                      else []) currentColumns) @
         concat (map (\<lambda>(name, newColumn). case map_of currentColumns name of
                        None \<Rightarrow> []
                      | Some currentColumn \<Rightarrow>
                          compareColumnDefinitions currentColumn newColumn ''helper''
                            (helper_name newHelper)) newColumns))"

definition compareHelpers :: "HelperDefinition list \<Rightarrow> HelperDefinition list \<Rightarrow> SchemaChange list" where
  "compareHelpers currentHelpers newHelpers =
     concat (map (\<lambda>newHelper. if helper_name newHelper \<notin> set (map helper_name currentHelpers)
                      then [\<lparr>change_type = ''helper_added'', category = ADDITION, impact = SAFE,
                             description = ''Added helper '' @ quoted (helper_name newHelper) @
                                           '' with '' @ show_nat (length (helper_columns newHelper)) @
                                           '' columns'',
                             target = helper_target (helper_name newHelper) None,
                             details = None\<rparr>]
                      else []) newHelpers) @
     concat (map (\<lambda>currentHelper. if helper_name currentHelper \<notin> set (map helper_name newHelpers)
                      then [\<lparr>change_type = ''helper_removed'', category = REMOVAL, impact = WARNING,
                             description = ''Removed helper '' @ quoted (helper_name currentHelper),
                             target = helper_target (helper_name currentHelper) None,
                             details = None\<rparr>]
                      else []) currentHelpers) @
     concat (map (\<lambda>newHelper. case find (\<lambda>h. helper_name h = helper_name newHelper) currentHelpers of
                        None \<Rightarrow> []
                      | Some currentHelper \<Rightarrow> compareHelperColumns currentHelper newHelper) newHelpers)"

definition table_target :: "string \<Rightarrow> string option \<Rightarrow> Target" where
  "table_target name col = \<lparr>target_type = ''table'', target_name = name, target_column = col\<rparr>"

text \<open>The change that \<open>compareTableColumns\<close> pushes for a column of the new table that
  the current table does not have.\<close>

definition column_added_change :: "string \<Rightarrow> string \<Rightarrow> ColumnDefinition \<Rightarrow> SchemaChange" where
  "column_added_change tableName name col =
     \<lparr>change_type = ''table_column_added'', category = ADDITION,
      impact = (if truthy_bool (notNull (options_of col)) then WARNING else SAFE),
      description = ''Added column '' @ quoted name @ '' to table '' @ quoted tableName @
                    (if truthy_bool (notNull (options_of col))
                     then '' (NOT NULL - requires default or data migration)''
                     else []),
      target = table_target tableName (Some name),
      details = None\<rparr>"

definition compareTableColumns :: "TableDefinition \<Rightarrow> TableDefinition \<Rightarrow> SchemaChange list" where
  "compareTableColumns currentTable newTable =
     (let currentColumns = columns_Map (columns currentTable);
          newColumns = columns_Map (columns newTable)
      in concat (map (\<lambda>(name, col). if \<not> Map_has currentColumns name
                      then [column_added_change (table_name newTable) name col]
                      else []) newColumns) @
         concat (map (\<lambda>(name, col). if \<not> Map_has newColumns name
                      then [\<lparr>change_type = ''table_column_removed'', category = REMOVAL,
                             impact = BREAKING,
                             description = ''Removed column '' @ quoted name @ '' from table '' @
                                           quoted (table_name newTable),
                             target = table_target (table_name newTable) (Some name),
                             details = None\<rparr>]
                      else []) currentColumns) @
         concat (map (\<lambda>(name, newColumn). case map_of currentColumns name of
                        None \<Rightarrow> []
                      | Some currentColumn \<Rightarrow>
                          compareColumnDefinitions currentColumn newColumn ''table''
                            (table_name newTable)) newColumns))"

definition compareHelperReferences :: "TableDefinition \<Rightarrow> TableDefinition \<Rightarrow> SchemaChange list" where
  "compareHelperReferences currentTable newTable =
     (let currentRefs = dedupe [] (or_empty (helperReferences currentTable));
          newRefs = dedupe [] (or_empty (helperReferences newTable))
      in concat (map (\<lambda>ref. if ref \<notin> set currentRefs
                      then [\<lparr>change_type = ''table_helper_reference_added'', category = ADDITION,
                             impact = SAFE,
                             description = ''Added helper reference '' @ quoted ref @ '' to table '' @
                                           quoted (table_name newTable),
                             target = table_target (table_name newTable) None,
                             details = Some (HelperReferenceDetails ref)\<rparr>]
                      else []) newRefs) @
         concat (map (\<lambda>ref. if ref \<notin> set newRefs
                      then [\<lparr>change_type = ''table_helper_reference_removed'', category = REMOVAL,
                             impact = WARNING,
                             description = ''Removed helper reference '' @ quoted ref @ '' from table '' @
                                           quoted (table_name newTable),
                             target = table_target (table_name newTable) None,
                             details = Some (HelperReferenceDetails ref)\<rparr>]
                      else []) currentRefs))"

definition compareCompositePrimaryKeys :: "TableDefinition \<Rightarrow> TableDefinition \<Rightarrow> SchemaChange list" where
  "compareCompositePrimaryKeys currentTable newTable =
     (let currentPK = dedupe [] (or_empty (compositePrimaryKey currentTable));
          newPK = dedupe [] (or_empty (compositePrimaryKey newTable))
      in if length currentPK \<noteq> length newPK \<or> list_ex (\<lambda>col. col \<notin> set newPK) currentPK
         then [\<lparr>change_type = ''table_composite_primary_key_changed'', category = MODIFICATION,
                impact = BREAKING,
                description = ''Changed composite primary key for table '' @ quoted (table_name newTable),
                target = table_target (table_name newTable) None,
                details = Some (KeyFromTo currentPK newPK)\<rparr>]
         else [])"

text \<open>The interface declares \<open>columns\<close> as required, so the test
  \<open>currentTable.columns && newTable.columns\<close> holds: an array is truthy.\<close>

definition compareTableStructure :: "TableDefinition \<Rightarrow> TableDefinition \<Rightarrow> SchemaChange list" where
  "compareTableStructure currentTable newTable =
     compareTableColumns currentTable newTable @
     compareHelperReferences currentTable newTable @
     compareCompositePrimaryKeys currentTable newTable"

definition compareTables :: "TableDefinition list \<Rightarrow> TableDefinition list \<Rightarrow> SchemaChange list" where
  "compareTables currentTables newTables =
     concat (map (\<lambda>newTable. if table_name newTable \<notin> set (map table_name currentTables)
                      then [\<lparr>change_type = ''table_added'', category = ADDITION, impact = SAFE,
                             description = ''Added table '' @ quoted (table_name newTable) @
                                           '' with '' @ show_nat (length (columns newTable)) @
                                           '' columns'',
                             target = table_target (table_name newTable) None,
                             details = None\<rparr>]
                      else []) newTables) @
     concat (map (\<lambda>currentTable. if table_name currentTable \<notin> set (map table_name newTables)
                      then [\<lparr>change_type = ''table_removed'', category = REMOVAL, impact = BREAKING,
                             description = ''Removed table '' @ quoted (table_name currentTable),
                             target = table_target (table_name currentTable) None,
                             details = None\<rparr>]
                      else []) currentTables) @
     concat (map (\<lambda>newTable. case find (\<lambda>t. table_name t = table_name newTable) currentTables of
                        None \<Rightarrow> []
                      | Some currentTable \<Rightarrow> compareTableStructure currentTable newTable) newTables)"

text \<open>\<open>summary.byType[t] = (summary.byType[t] || 0) + 1\<close>.\<close>

fun count_type :: "string \<Rightarrow> (string \<times> nat) list \<Rightarrow> (string \<times> nat) list" where
  "count_type t [] = [(t, 1)]"
| "count_type t ((t', n) # rest) = (if t' = t then (t', n + 1) # rest else (t', n) # count_type t rest)"

definition generateSummary :: "SchemaChange list \<Rightarrow> Summary" where
  "generateSummary cs =
     \<lparr>totalChanges = length cs,
      byCategory = map (\<lambda>cat. (cat, length (filter (\<lambda>c. category c = cat) cs)))
                       [ADDITION, MODIFICATION, REMOVAL],
      byImpact = map (\<lambda>imp. (imp, length (filter (\<lambda>c. impact c = imp) cs)))
                     [SAFE, WARNING, BREAKING],
      byType = foldl (\<lambda>counts c. count_type (change_type c) counts) [] cs\<rparr>"

text \<open>The messages start with characters outside ASCII; each is written here as one
  \<open>char\<close>, by its byte in Windows-1252.\<close>

definition warning_sign :: string where
  "warning_sign = [CHR 0xE2, CHR 0x9A, CHR 0xA0, CHR 0xEF, CHR 0xB8]"

definition clipboard_sign :: string where
  "clipboard_sign = [CHR 0xF0, CHR 0x9F, CHR 0x93, CHR 0x8B]"

definition cycle_sign :: string where
  "cycle_sign = [CHR 0xF0, CHR 0x9F, CHR 0x94, CHR 0x84]"

definition flash_sign :: string where
  "flash_sign = [CHR 0xE2, CHR 0x9A, CHR 0xA1]"

definition wrench_sign :: string where
  "wrench_sign = [CHR 0xF0, CHR 0x9F, CHR 0x94, CHR 0xA7]"

definition check_sign :: string where
  "check_sign = [CHR 0xE2, CHR 0x9C, CHR 0x85]"

definition party_sign :: string where
  "party_sign = [CHR 0xF0, CHR 0x9F, CHR 0x8E, CHR 0x89]"

definition no_changes_message :: string where
  "no_changes_message = party_sign @ '' No changes detected. Schemas are identical.''"

definition generateRecommendations :: "SchemaChange list \<Rightarrow> string list" where
  "generateRecommendations cs =
     (let breakingChanges = filter (\<lambda>c. impact c = BREAKING) cs;
          warningChanges = filter (\<lambda>c. impact c = WARNING) cs;
          safeChanges = filter (\<lambda>c. impact c = SAFE) cs
      in (if length breakingChanges > 0
          then [warning_sign @ ''  '' @ show_nat (length breakingChanges) @
                '' breaking changes detected. Consider creating a migration plan.''] @
               (if length (filter (\<lambda>c. change_type c = ''table_removed'') breakingChanges) > 0
                then [clipboard_sign @ '' Back up data for removed tables before applying changes.'']
                else []) @
               (if length (filter (\<lambda>c. str_includes (change_type c) ''column_removed'')
                             breakingChanges) > 0
                then [cycle_sign @ '' Plan data migration for removed columns.'']
                else [])
          else []) @
         (if length warningChanges > 0
          then [flash_sign @ '' '' @ show_nat (length warningChanges) @
                '' changes require attention. Review before applying.''] @
               (if length (filter (\<lambda>c. str_includes (description c) ''NOT NULL'') warningChanges) > 0
                then [wrench_sign @ '' Add default values or populate data for new NOT NULL columns.'']
                else [])
          else []) @
         (if length safeChanges > 0
          then [check_sign @ '' '' @ show_nat (length safeChanges) @
                '' safe changes can be applied automatically.'']
          else []) @
         (if length cs = 0 then [no_changes_message] else []))"

definition compareSchemas :: "ProjectGeneratorConfig \<Rightarrow> ProjectGeneratorConfig \<Rightarrow> SchemaComparison" where
  "compareSchemas currentSchema newSchema =
     (let cs = compareEnums (or_empty (enums currentSchema)) (or_empty (enums newSchema)) @
               compareHelpers (or_empty (helpers currentSchema)) (or_empty (helpers newSchema)) @
               compareTables (or_empty (tables currentSchema)) (or_empty (tables newSchema))
      in \<lparr>changes = cs,
          summary = generateSummary cs,
          recommendations = generateRecommendations cs,
          canApply = \<lparr>can_safe = list_ex (\<lambda>c. impact c = SAFE) cs,
                       withWarnings = list_ex (\<lambda>c. impact c = WARNING) cs,
                       withBreaking = list_ex (\<lambda>c. impact c = BREAKING) cs\<rparr>\<rparr>)"

subsection \<open>Applying changes\<close>

record ApplyOptions =
  allowBreaking :: "bool option"
  allowWarning :: "bool option"
  dryRun :: "bool option"

record UpdateMetadata =
  meta_totalChanges :: nat
  appliedCount :: nat
  rejectedCount :: nat
  meta_dryRun :: bool

record SchemaUpdateResult =
  applied :: "SchemaChange list"
  rejected :: "SchemaChange list"
  metadata :: UpdateMetadata

definition shouldApplyChange :: "SchemaChange \<Rightarrow> bool \<Rightarrow> bool \<Rightarrow> bool" where
  "shouldApplyChange change allowBreaking' allowWarning' =
     (if impact change = SAFE then True
      else if impact change = WARNING then allowWarning'
      else if impact change = BREAKING then allowBreaking'
      else False)"

text \<open>The loop of \<open>applySafeChanges\<close>: each change is pushed to one of the two lists.\<close>

fun apply_loop ::
  "SchemaChange list \<Rightarrow> bool \<Rightarrow> bool \<Rightarrow> SchemaChange list \<Rightarrow> SchemaChange list
     \<Rightarrow> SchemaChange list \<times> SchemaChange list" where
  "apply_loop [] ab aw applied' rejected' = (applied', rejected')"
| "apply_loop (change # rest) ab aw applied' rejected' =
     (if shouldApplyChange change ab aw
      then apply_loop rest ab aw (applied' @ [change]) rejected'
      else apply_loop rest ab aw applied' (rejected' @ [change]))"

text \<open>\<open>applyChangesToFiles\<close> is a placeholder that writes one line to the console; the
  model returns the lines written beside the result.\<close>

definition applyChangesToFiles :: "string \<Rightarrow> SchemaChange list \<Rightarrow> string list" where
  "applyChangesToFiles projectPath cs =
     [''Would apply '' @ show_nat (length cs) @ '' changes to '' @ projectPath]"

definition applySafeChanges ::
  "string \<Rightarrow> SchemaComparison \<Rightarrow> ApplyOptions \<Rightarrow> SchemaUpdateResult \<times> string list" where
  "applySafeChanges projectPath comparison opts =
     (let allowBreaking' = (case allowBreaking opts of None \<Rightarrow> False | Some b \<Rightarrow> b);
          allowWarning' = (case allowWarning opts of None \<Rightarrow> True | Some b \<Rightarrow> b);
          dryRun' = (case dryRun opts of None \<Rightarrow> False | Some b \<Rightarrow> b);
          lists = apply_loop (changes comparison) allowBreaking' allowWarning' [] [];
          console = (if \<not> dryRun' \<and> length (fst lists) > 0
                     then applyChangesToFiles projectPath (fst lists) else [])
      in (\<lparr>applied = fst lists,
           rejected = snd lists,
           metadata = \<lparr>meta_totalChanges = length (changes comparison),
                        appliedCount = length (fst lists),
                        rejectedCount = length (snd lists),
                        meta_dryRun = dryRun'\<rparr>\<rparr>,
          console))"

text \<open>The options object \<open>{}\<close>, the default of the parameter.\<close>

definition default_options :: ApplyOptions where
  "default_options = \<lparr>allowBreaking = None, allowWarning = None, dryRun = None\<rparr>"

section \<open>Sample inputs\<close>

definition sample_safe :: SchemaChange where
  "sample_safe = \<lparr>change_type = ''table_added'', category = ADDITION, impact = SAFE,
     description = ''Added table'', target = table_target ''posts'' None, details = None\<rparr>"

definition sample_breaking :: SchemaChange where
  "sample_breaking = \<lparr>change_type = ''table_removed'', category = REMOVAL, impact = BREAKING,
     description = ''Removed table'', target = table_target ''users'' None, details = None\<rparr>"

definition sample_comparison :: SchemaComparison where
  "sample_comparison = \<lparr>changes = [sample_safe, sample_breaking],
     summary = generateSummary [sample_safe, sample_breaking],
     recommendations = generateRecommendations [sample_safe, sample_breaking],
     canApply = \<lparr>can_safe = True, withWarnings = False, withBreaking = True\<rparr>\<rparr>"

definition sample_users_old :: TableDefinition where
  "sample_users_old = \<lparr>table_name = ''users'', dbName = None,
     columns = [\<lparr>col_name = ''id'', col_type = Some ''serial'',
                 col_options = Some (no_options\<lparr>primaryKey := Some True\<rparr>)\<rparr>],
     helperReferences = None, compositePrimaryKey = None\<rparr>"

definition sample_users_new :: TableDefinition where
  "sample_users_new = \<lparr>table_name = ''users'', dbName = None,
     columns = [\<lparr>col_name = ''id'', col_type = Some ''serial'',
                 col_options = Some (no_options\<lparr>primaryKey := Some True\<rparr>)\<rparr>,
                \<lparr>col_name = ''email'', col_type = Some ''string'',
                 col_options = Some (no_options\<lparr>notNull := Some True\<rparr>)\<rparr>],
     helperReferences = None, compositePrimaryKey = None\<rparr>"

definition sample_schema :: ProjectGeneratorConfig where
  "sample_schema = \<lparr>outputDir = ''out'',
     enums = Some [\<lparr>enum_name = ''UserStatus'', enum_values = [''active'', ''inactive'']\<rparr>],
     helpers = Some [\<lparr>helper_name = ''BaseFields'', helper_columns = columns sample_users_old\<rparr>],
     tables = Some [sample_users_new],
     overwrite = Some True\<rparr>"

definition duplicate_schema :: ProjectGeneratorConfig where
  "duplicate_schema = \<lparr>outputDir = ''out'',
     enums = Some [\<lparr>enum_name = ''Status'', enum_values = [''active'']\<rparr>,
                   \<lparr>enum_name = ''Status'', enum_values = [''archived'']\<rparr>],
     helpers = None, tables = None, overwrite = None\<rparr>"

definition id_column :: ColumnDefinition where
  "id_column = \<lparr>col_name = ''id'', col_type = Some ''serial'',
                 col_options = Some (no_options\<lparr>primaryKey := Some True\<rparr>)\<rparr>"

definition untyped_column :: ColumnDefinition where
  "untyped_column = \<lparr>col_name = ''status'', col_type = None, col_options = None\<rparr>"

definition unsupported_column :: ColumnDefinition where
  "unsupported_column = \<lparr>col_name = ''data'', col_type = Some ''unsupported'', col_options = None\<rparr>"

definition failing_helper :: HelperDefinition where
  "failing_helper = \<lparr>helper_name = ''Audit'',
                      helper_columns = [id_column, untyped_column, unsupported_column]\<rparr>"

definition blank_helper :: HelperDefinition where
  "blank_helper = \<lparr>helper_name = ''   '', helper_columns = [untyped_column]\<rparr>"

definition id_table :: TableDefinition where
  "id_table = \<lparr>table_name = ''users'', dbName = None, columns = [id_column],
                helperReferences = None, compositePrimaryKey = Some [''id'']\<rparr>"

definition both_set_column :: ColumnDefinition where
  "both_set_column = \<lparr>col_name = ''status'', col_type = Some ''string'',
                       col_options = Some (no_options\<lparr>enumValues := Some ''UserStatus''\<rparr>)\<rparr>"

definition enum_typed_column :: ColumnDefinition where
  "enum_typed_column = \<lparr>col_name = ''status'', col_type = Some ''Enum'',
                         col_options = Some (no_options\<lparr>enumValues := Some ''UserStatus''\<rparr>)\<rparr>"



definition single_key_table :: TableDefinition where
  "single_key_table = \<lparr>table_name = ''Users'', dbName = None,
     columns = [\<lparr>col_name = ''id'', col_type = Some ''serial'', col_options = None\<rparr>],
     helperReferences = None, compositePrimaryKey = Some [''id'']\<rparr>"


definition blank_name :: string where
  "blank_name = [CHR 0x20, CHR 0xA0, CHR 0x09]"

definition status_enum :: EnumDefinition where
  "status_enum = \<lparr>enum_name = ''UserStatus'', enum_values = [''active'', ''IN_PROGRESS'', ''to-do'']\<rparr>"

definition digit_enum :: EnumDefinition where
  "digit_enum = \<lparr>enum_name = ''Status'', enum_values = [''user_1_name'']\<rparr>"

definition multiword_column :: ColumnDefinition where
  "multiword_column = \<lparr>col_name = ''status'', col_type = None,
     col_options = Some (no_options\<lparr>enumValues := Some ''TaskStatus'',
                                       default_opt := Some (DString ''in_progress'')\<rparr>)\<rparr>"

definition multiword_column_decoded :: ColumnDefinition where
  "multiword_column_decoded = \<lparr>col_name = ''status'', col_type = None,
     col_options = Some (no_options\<lparr>enumValues := Some ''TaskStatus'',
                                       default_opt := Some (DString ''inprogress'')\<rparr>)\<rparr>"

definition now_column :: ColumnDefinition where
  "now_column = \<lparr>col_name = ''createdAt'', col_type = Some ''date'',
     col_options = Some (no_options\<lparr>notNull := Some True,
                                       default_opt := Some (DString ''sql.now()'')\<rparr>)\<rparr>"

definition now_column_decoded :: ColumnDefinition where
  "now_column_decoded = \<lparr>col_name = ''createdAt'', col_type = Some ''date'',
     col_options = Some (no_options\<lparr>notNull := Some True\<rparr>)\<rparr>"

section \<open>Properties\<close>

subsection \<open>The policy gate\<close>

lemma apply_loop_filter:
  "apply_loop cs ab aw a r =
     (a @ filter (\<lambda>c. shouldApplyChange c ab aw) cs,
      r @ filter (\<lambda>c. \<not> shouldApplyChange c ab aw) cs)"
  by (induction cs arbitrary: a r) auto

text \<open>
  Claim C4. \<open>applySafeChanges\<close> splits the changes of the comparison, in their order, into
  the applied ones and the rejected ones, every change going to exactly one of the two
  lists: a change is applied when its impact is \<open>safe\<close>, when it is \<open>warning\<close> and
  \<open>allowWarning\<close> is not \<open>false\<close> (it defaults to \<open>true\<close>), or when it is \<open>breaking\<close> and
  \<open>allowBreaking\<close> is \<open>true\<close> (it defaults to \<open>false\<close>); a change of any other impact is
  rejected. For one safe and one breaking change the default options apply the safe one
  and reject the breaking one, and \<open>allowBreaking: true\<close> applies both.
\<close>

theorem applySafeChanges_policy:
  "applied (fst (applySafeChanges path comparison opts)) =
     filter (\<lambda>c. impact c = SAFE \<or> impact c = WARNING \<and> allowWarning opts \<noteq> Some False
                  \<or> impact c = BREAKING \<and> allowBreaking opts = Some True) (changes comparison)
   \<and> rejected (fst (applySafeChanges path comparison opts)) =
     filter (\<lambda>c. \<not> (impact c = SAFE \<or> impact c = WARNING \<and> allowWarning opts \<noteq> Some False
                  \<or> impact c = BREAKING \<and> allowBreaking opts = Some True)) (changes comparison)
   \<and> (impact c1 = SAFE \<and> impact c2 = BREAKING \<and> changes comparison = [c1, c2] \<longrightarrow>
        applied (fst (applySafeChanges path comparison default_options)) = [c1]
        \<and> rejected (fst (applySafeChanges path comparison default_options)) = [c2]
        \<and> applied (fst (applySafeChanges path comparison
                            (default_options\<lparr>allowBreaking := Some True\<rparr>))) = [c1, c2]
        \<and> rejected (fst (applySafeChanges path comparison
                             (default_options\<lparr>allowBreaking := Some True\<rparr>))) = [])"
proof -
  have ab: "(case allowBreaking opts of None \<Rightarrow> False | Some b \<Rightarrow> b) = (allowBreaking opts = Some True)"
    by (cases "allowBreaking opts") auto
  have aw: "(case allowWarning opts of None \<Rightarrow> True | Some b \<Rightarrow> b) = (allowWarning opts \<noteq> Some False)"
    by (cases "allowWarning opts") auto
  have dec: "shouldApplyChange c (allowBreaking opts = Some True) (allowWarning opts \<noteq> Some False) =
      (impact c = SAFE \<or> impact c = WARNING \<and> allowWarning opts \<noteq> Some False
                  \<or> impact c = BREAKING \<and> allowBreaking opts = Some True)" for c
    by (simp add: shouldApplyChange_def)
  have 1: "applied (fst (applySafeChanges path comparison opts)) =
     filter (\<lambda>c. impact c = SAFE \<or> impact c = WARNING \<and> allowWarning opts \<noteq> Some False
                  \<or> impact c = BREAKING \<and> allowBreaking opts = Some True) (changes comparison)"
    by (simp add: applySafeChanges_def Let_def apply_loop_filter ab aw dec)
  have 2: "rejected (fst (applySafeChanges path comparison opts)) =
     filter (\<lambda>c. \<not> (impact c = SAFE \<or> impact c = WARNING \<and> allowWarning opts \<noteq> Some False
                  \<or> impact c = BREAKING \<and> allowBreaking opts = Some True)) (changes comparison)"
    by (simp add: applySafeChanges_def Let_def apply_loop_filter ab aw dec)
  have 3: "impact c1 = SAFE \<and> impact c2 = BREAKING \<and> changes comparison = [c1, c2] \<longrightarrow>
        applied (fst (applySafeChanges path comparison default_options)) = [c1]
        \<and> rejected (fst (applySafeChanges path comparison default_options)) = [c2]
        \<and> applied (fst (applySafeChanges path comparison
                            (default_options\<lparr>allowBreaking := Some True\<rparr>))) = [c1, c2]
        \<and> rejected (fst (applySafeChanges path comparison
                             (default_options\<lparr>allowBreaking := Some True\<rparr>))) = []"
    by (simp add: applySafeChanges_def Let_def default_options_def shouldApplyChange_def)
  from 1 2 3 show ?thesis by blast
qed

theorem applySafeChanges_policy_witness:
  "applied (fst (applySafeChanges ''proj'' sample_comparison default_options)) = [sample_safe]
   \<and> rejected (fst (applySafeChanges ''proj'' sample_comparison default_options)) = [sample_breaking]
   \<and> applied (fst (applySafeChanges ''proj'' sample_comparison
                            (default_options\<lparr>allowBreaking := Some True\<rparr>))) = [sample_safe, sample_breaking]
   \<and> rejected (fst (applySafeChanges ''proj'' sample_comparison
                             (default_options\<lparr>allowBreaking := Some True\<rparr>))) = []"
proof -
  have h: "impact sample_safe = SAFE \<and> impact sample_breaking = BREAKING
           \<and> changes sample_comparison = [sample_safe, sample_breaking]"
    by (simp add: sample_comparison_def sample_safe_def sample_breaking_def)
  from applySafeChanges_policy [of "''proj''" sample_comparison default_options sample_safe sample_breaking] h
  show ?thesis by blast
qed

subsection \<open>The diff engine\<close>

text \<open>
  The map of a list of columns: its keys are the column names, each once, and the value
  of a name is the last column of that name.
\<close>

lemma map_of_map_set: "map_of (map_set k v m) = (map_of m)(k \<mapsto> v)"
  by (induction m) auto

lemma keys_map_set: "fst ` set (map_set k v m) = insert k (fst ` set m)"
proof (induction m)
  case Nil
  then show ?case by simp
next
  case (Cons e m)
  obtain k' v' where e: "e = (k', v')" by (cases e)
  show ?case
  proof (cases "k' = k")
    case True
    then show ?thesis by (simp add: e)
  next
    case False
    then show ?thesis using Cons.IH by (simp add: e insert_commute)
  qed
qed

lemma distinct_map_set: "distinct (map fst m) \<Longrightarrow> distinct (map fst (map_set k v m))"
  by (induction m) (auto simp: keys_map_set)

lemma foldl_map_set_keys:
  "fst ` set (foldl (\<lambda>m (k, v). map_set k v m) acc es) = fst ` set acc \<union> fst ` set es"
proof (induction es arbitrary: acc)
  case Nil
  then show ?case by simp
next
  case (Cons e es)
  obtain k v where e: "e = (k, v)" by (cases e)
  show ?case using Cons.IH [of "map_set k v acc"] by (simp add: e keys_map_set)
qed

lemma foldl_map_set_distinct:
  "distinct (map fst acc) \<Longrightarrow> distinct (map fst (foldl (\<lambda>m (k, v). map_set k v m) acc es))"
  by (induction es arbitrary: acc) (auto simp: distinct_map_set split: prod.splits)

lemma foldl_map_set_lookup:
  "map_of (foldl (\<lambda>m (k, v). map_set k v m) acc es) = map_of acc ++ map_of (rev es)"
proof (induction es arbitrary: acc)
  case Nil
  then show ?case by simp
next
  case (Cons e es)
  obtain k v where e: "e = (k, v)" by (cases e)
  have "map_of (foldl (\<lambda>m (k, v). map_set k v m) acc (e # es))
        = map_of (map_set k v acc) ++ map_of (rev es)"
    using Cons.IH [of "map_set k v acc"] by (simp add: e)
  also have "\<dots> = map_of acc ++ map_of (rev (e # es))"
    by (rule ext) (auto simp: map_of_map_set map_add_def e split: option.splits)
  finally show ?case .
qed

lemma columns_Map_keys: "fst ` set (columns_Map cols) = col_name ` set cols"
  by (simp add: columns_Map_def new_Map_def foldl_map_set_keys image_image)

lemma columns_Map_distinct: "distinct (map fst (columns_Map cols))"
  by (simp add: columns_Map_def new_Map_def foldl_map_set_distinct)

lemma map_of_rev_named:
  "map_of (rev (map (\<lambda>c. (col_name c, c)) cols)) n =
     (if filter (\<lambda>c. col_name c = n) cols = [] then None
      else Some (last (filter (\<lambda>c. col_name c = n) cols)))"
  by (induction cols rule: rev_induct) auto

lemma columns_Map_lookup:
  "map_of (columns_Map cols) n =
     (if filter (\<lambda>c. col_name c = n) cols = [] then None
      else Some (last (filter (\<lambda>c. col_name c = n) cols)))"
  by (simp add: columns_Map_def new_Map_def foldl_map_set_lookup map_of_rev_named)

lemma columns_Map_entry:
  "(n, col) \<in> set (columns_Map cols) \<Longrightarrow> map_of (columns_Map cols) n = Some col"
  using columns_Map_distinct [of cols] by simp

lemma columns_Map_entry_name:
  "(n, col) \<in> set (columns_Map cols) \<Longrightarrow> col_name col = n"
proof -
  assume a: "(n, col) \<in> set (columns_Map cols)"
  then have "map_of (columns_Map cols) n = Some col" by (rule columns_Map_entry)
  then have f: "filter (\<lambda>c. col_name c = n) cols \<noteq> []"
    and l: "col = last (filter (\<lambda>c. col_name c = n) cols)"
    by (auto simp: columns_Map_lookup split: if_splits)
  from f have "last (filter (\<lambda>c. col_name c = n) cols) \<in> set (filter (\<lambda>c. col_name c = n) cols)"
    by (rule last_in_set)
  with l show ?thesis by simp
qed

lemma str_includes_iff: "str_includes s p \<longleftrightarrow> (\<exists>a b. s = a @ p @ b)"
proof (induction s)
  case Nil
  then show ?case by auto
next
  case (Cons c cs)
  have sw: "startsWith (c # cs) p \<longleftrightarrow> (\<exists>b. c # cs = p @ b)"
    unfolding startsWith_def
    by (metis append_eq_conv_conj append_take_drop_id)
  show ?case
  proof
    assume "str_includes (c # cs) p"
    then consider "startsWith (c # cs) p" | "str_includes cs p" by auto
    then show "\<exists>a b. c # cs = a @ p @ b"
    proof cases
      case 1
      then obtain b where "c # cs = p @ b" using sw by blast
      then have "c # cs = [] @ p @ b" by simp
      then show ?thesis by blast
    next
      case 2
      then obtain a b where "cs = a @ p @ b" using Cons.IH by blast
      then have "c # cs = (c # a) @ p @ b" by simp
      then show ?thesis by blast
    qed
  next
    assume "\<exists>a b. c # cs = a @ p @ b"
    then obtain a b where ab: "c # cs = a @ p @ b" by blast
    show "str_includes (c # cs) p"
    proof (cases a)
      case Nil
      with ab have "c # cs = p @ b" by simp
      then have "startsWith (c # cs) p" using sw by blast
      then show ?thesis by simp
    next
      case (Cons x a')
      with ab have "cs = a' @ p @ b" by simp
      then show ?thesis using Cons.IH by auto
    qed
  qed
qed

lemma compareColumnDefinitions_types:
  "c \<in> set (compareColumnDefinitions a b tt tn) \<Longrightarrow> change_type c \<noteq> ''table_column_added''"
  unfolding compareColumnDefinitions_def Let_def
  by (auto split: if_splits)

lemma compareTableColumns_added_only:
  assumes c: "c \<in> set (compareTableColumns currentTable newTable)"
    and t: "change_type c = ''table_column_added''"
  shows "\<exists>n col. (n, col) \<in> set (columns_Map (columns newTable))
            \<and> c = column_added_change (table_name newTable) n col"
proof -
  let ?new = "columns_Map (columns newTable)"
  let ?cur = "columns_Map (columns currentTable)"
  let ?A = "concat (map (\<lambda>(name, col). if \<not> Map_has ?cur name
                      then [column_added_change (table_name newTable) name col]
                      else []) ?new)"
  let ?B = "concat (map (\<lambda>(name, col). if \<not> Map_has ?new name
                      then [\<lparr>change_type = ''table_column_removed'', category = REMOVAL,
                             impact = BREAKING,
                             description = ''Removed column '' @ quoted name @ '' from table '' @
                                           quoted (table_name newTable),
                             target = table_target (table_name newTable) (Some name),
                             details = None\<rparr>]
                      else []) ?cur)"
  let ?C = "concat (map (\<lambda>(name, newColumn). case map_of ?cur name of
                        None \<Rightarrow> []
                      | Some currentColumn \<Rightarrow>
                          compareColumnDefinitions currentColumn newColumn ''table''
                            (table_name newTable)) ?new)"
  have split: "compareTableColumns currentTable newTable = ?A @ ?B @ ?C"
    by (simp add: compareTableColumns_def Let_def)
  have notB: "c \<notin> set ?B" using t by (auto split: if_splits)
  have notC: "c \<notin> set ?C" using t compareColumnDefinitions_types
    by (fastforce split: option.splits)
  from c have "c \<in> set ?A \<union> (set ?B \<union> set ?C)"
    unfolding split by (simp only: set_append)
  with notB notC have "c \<in> set ?A" by (simp only: Un_iff) blast
  then show ?thesis by (auto split: if_splits)
qed

text \<open>
  Claim C6. When the new table has a column name \<open>n\<close> that the current table does not
  have, \<open>compareTableColumns\<close> returns a change of type \<open>table_column_added\<close> for \<open>n\<close>,
  and every such change has category \<open>addition\<close>; its impact is \<open>warning\<close> and its
  description contains \<open>NOT NULL\<close> when the added column has \<open>options.notNull\<close> set to
  \<open>true\<close>, and its impact is \<open>safe\<close> otherwise. The added column is the one the map
  holds for \<open>n\<close>: the last column of that name in the new table.
\<close>

theorem compareTableColumns_added:
  "n \<in> set (map col_name (columns newTable)) \<and> n \<notin> set (map col_name (columns currentTable)) \<longrightarrow>
     (\<exists>c \<in> set (compareTableColumns currentTable newTable).
        change_type c = ''table_column_added'' \<and> target_column (target c) = Some n)
     \<and> (\<forall>c \<in> set (compareTableColumns currentTable newTable).
          change_type c = ''table_column_added'' \<and> target_column (target c) = Some n \<longrightarrow>
            category c = ADDITION
            \<and> (if notNull (options_of (last (filter (\<lambda>col. col_name col = n) (columns newTable)))) = Some True
               then impact c = WARNING \<and> str_includes (description c) ''NOT NULL''
               else impact c = SAFE))"
proof (intro impI)
  assume h: "n \<in> set (map col_name (columns newTable)) \<and> n \<notin> set (map col_name (columns currentTable))"
  let ?new = "columns_Map (columns newTable)"
  let ?cur = "columns_Map (columns currentTable)"
  let ?col = "last (filter (\<lambda>col. col_name col = n) (columns newTable))"
  let ?chg = "column_added_change (table_name newTable) n ?col"
  from h have ne: "filter (\<lambda>col. col_name col = n) (columns newTable) \<noteq> []"
    by (auto simp: filter_empty_conv)
  then have look: "map_of ?new n = Some ?col" by (simp add: columns_Map_lookup)
  then have mem: "(n, ?col) \<in> set ?new" by (rule map_of_SomeD)
  from h have nothas: "\<not> Map_has ?cur n" by (simp add: Map_has_def columns_Map_keys)
  have "?chg \<in> set (compareTableColumns currentTable newTable)"
    using mem nothas by (force simp: compareTableColumns_def Let_def)
  moreover have "change_type ?chg = ''table_column_added'' \<and> target_column (target ?chg) = Some n"
    by (simp add: column_added_change_def table_target_def)
  ultimately have ex: "\<exists>c \<in> set (compareTableColumns currentTable newTable).
        change_type c = ''table_column_added'' \<and> target_column (target c) = Some n"
    by blast
  have inc: "str_includes (x @ '' (NOT NULL - requires default or data migration)'') ''NOT NULL''" for x
    unfolding str_includes_iff
    by (rule exI [of _ "x @ '' (''"], rule exI [of _ "'' - requires default or data migration)''"]) simp
  have all: "\<forall>c \<in> set (compareTableColumns currentTable newTable).
          change_type c = ''table_column_added'' \<and> target_column (target c) = Some n \<longrightarrow>
            category c = ADDITION
            \<and> (if notNull (options_of ?col) = Some True
               then impact c = WARNING \<and> str_includes (description c) ''NOT NULL''
               else impact c = SAFE)"
  proof (intro ballI impI)
    fix c
    assume c: "c \<in> set (compareTableColumns currentTable newTable)"
      and t: "change_type c = ''table_column_added'' \<and> target_column (target c) = Some n"
    from c t obtain n' col' where e: "(n', col') \<in> set ?new"
      and ceq: "c = column_added_change (table_name newTable) n' col'"
      using compareTableColumns_added_only by blast
    from ceq t have "n' = n" by (simp add: column_added_change_def table_target_def)
    with e look have "col' = ?col" using columns_Map_entry by fastforce
    with ceq \<open>n' = n\<close> have ceq': "c = ?chg" by simp
    show "category c = ADDITION
            \<and> (if notNull (options_of ?col) = Some True
               then impact c = WARNING \<and> str_includes (description c) ''NOT NULL''
               else impact c = SAFE)"
      using inc [of "''Added column '' @ quoted n @ '' to table '' @ quoted (table_name newTable)"]
      by (simp add: ceq' column_added_change_def truthy_bool_def)
  qed
  from ex all show "(\<exists>c \<in> set (compareTableColumns currentTable newTable).
        change_type c = ''table_column_added'' \<and> target_column (target c) = Some n)
     \<and> (\<forall>c \<in> set (compareTableColumns currentTable newTable).
          change_type c = ''table_column_added'' \<and> target_column (target c) = Some n \<longrightarrow>
            category c = ADDITION
            \<and> (if notNull (options_of ?col) = Some True
               then impact c = WARNING \<and> str_includes (description c) ''NOT NULL''
               else impact c = SAFE))"
    by (rule conjI)
qed

theorem compareTableColumns_added_witness:
  "''email'' \<in> set (map col_name (columns sample_users_new))
   \<and> ''email'' \<notin> set (map col_name (columns sample_users_old))
   \<and> (\<exists>c \<in> set (compareTableColumns sample_users_old sample_users_new).
         change_type c = ''table_column_added'' \<and> target_column (target c) = Some ''email''
         \<and> category c = ADDITION \<and> impact c = WARNING
         \<and> str_includes (description c) ''NOT NULL'')"
proof -
  have h: "''email'' \<in> set (map col_name (columns sample_users_new))
           \<and> ''email'' \<notin> set (map col_name (columns sample_users_old))"
    by (simp add: sample_users_new_def sample_users_old_def)
  have nn: "notNull (options_of (last (filter (\<lambda>col. col_name col = ''email'')
              (columns sample_users_new)))) = Some True"
    by (simp add: sample_users_new_def options_of_def no_options_def)
  from compareTableColumns_added [of "''email''" sample_users_new sample_users_old] h
  have both: "(\<exists>c \<in> set (compareTableColumns sample_users_old sample_users_new).
        change_type c = ''table_column_added'' \<and> target_column (target c) = Some ''email'')
     \<and> (\<forall>c \<in> set (compareTableColumns sample_users_old sample_users_new).
          change_type c = ''table_column_added'' \<and> target_column (target c) = Some ''email'' \<longrightarrow>
            category c = ADDITION
            \<and> (if notNull (options_of (last (filter (\<lambda>col. col_name col = ''email'')
                     (columns sample_users_new)))) = Some True
               then impact c = WARNING \<and> str_includes (description c) ''NOT NULL''
               else impact c = SAFE))"
    by (rule mp)
  then obtain c where c: "c \<in> set (compareTableColumns sample_users_old sample_users_new)"
    and t: "change_type c = ''table_column_added'' \<and> target_column (target c) = Some ''email''"
    by blast
  from both c t have "category c = ADDITION
            \<and> (if notNull (options_of (last (filter (\<lambda>col. col_name col = ''email'')
                     (columns sample_users_new)))) = Some True
               then impact c = WARNING \<and> str_includes (description c) ''NOT NULL''
               else impact c = SAFE)"
    by blast
  then have "category c = ADDITION \<and> impact c = WARNING \<and> str_includes (description c) ''NOT NULL''"
    by (simp only: nn if_True)
  with c t h show ?thesis by blast
qed

text \<open>
  Comparing an entity with itself gives no change.
\<close>

lemma find_same_name:
  "distinct (map f xs) \<Longrightarrow> x \<in> set xs \<Longrightarrow> find (\<lambda>y. f y = f x) xs = Some x"
  by (induction xs) (auto simp: image_iff)

lemma concat_map_empty: "(\<And>x. x \<in> set xs \<Longrightarrow> f x = []) \<Longrightarrow> concat (map f xs) = []"
  by (induction xs) auto

lemma compareEnumValues_same: "compareEnumValues e e = []"
  unfolding compareEnumValues_def by (simp add: concat_map_empty)

lemma compareEnums_same:
  assumes "distinct (map enum_name es)"
  shows "compareEnums es es = []"
  unfolding compareEnums_def
  using assms by (simp add: concat_map_empty find_same_name compareEnumValues_same)

lemma compareColumnDefinitions_same: "compareColumnDefinitions c c tt tn = []"
  by (simp add: compareColumnDefinitions_def Let_def)

lemma columns_compare_same:
  "concat (map (\<lambda>(name, newColumn). case map_of (columns_Map cols) name of
                        None \<Rightarrow> []
                      | Some currentColumn \<Rightarrow> compareColumnDefinitions currentColumn newColumn tt tn)
               (columns_Map cols)) = []"
  by (rule concat_map_empty) (auto simp: columns_Map_entry compareColumnDefinitions_same)

lemma columns_added_same:
  "concat (map (\<lambda>(name, col). if \<not> Map_has (columns_Map cols) name then [g name col] else [])
               (columns_Map cols)) = []"
  by (rule concat_map_empty) (force simp: Map_has_def)

lemma compareHelperColumns_same: "compareHelperColumns h h = []"
  unfolding compareHelperColumns_def Let_def
  by (simp only: columns_added_same columns_compare_same append_Nil)

lemma compareHelpers_same:
  assumes "distinct (map helper_name hs)"
  shows "compareHelpers hs hs = []"
  unfolding compareHelpers_def
  using assms by (simp add: concat_map_empty find_same_name compareHelperColumns_same)

lemma compareTableColumns_same: "compareTableColumns t t = []"
  unfolding compareTableColumns_def Let_def
  by (simp only: columns_added_same columns_compare_same append_Nil)

lemma compareHelperReferences_same: "compareHelperReferences t t = []"
  unfolding compareHelperReferences_def Let_def by (simp add: concat_map_empty)

lemma compareCompositePrimaryKeys_same: "compareCompositePrimaryKeys t t = []"
  unfolding compareCompositePrimaryKeys_def Let_def by (simp add: list_ex_iff)

lemma compareTables_same:
  assumes "distinct (map table_name ts)"
  shows "compareTables ts ts = []"
  unfolding compareTables_def
  using assms
  by (simp add: concat_map_empty find_same_name compareTableStructure_def
        compareTableColumns_same compareHelperReferences_same compareCompositePrimaryKeys_same)

lemma generateRecommendations_empty: "generateRecommendations [] = [no_changes_message]"
  by (simp add: generateRecommendations_def)

text \<open>
  Claim C5, amended. For every schema in which no two enums, no two helpers and no two
  tables have the same name, comparing the schema with itself gives no change, and the
  recommendations are the single message that no changes were detected.
\<close>

theorem compareSchemas_same:
  "distinct (map enum_name (or_empty (enums s)))
   \<and> distinct (map helper_name (or_empty (helpers s)))
   \<and> distinct (map table_name (or_empty (tables s))) \<longrightarrow>
     changes (compareSchemas s s) = []
     \<and> recommendations (compareSchemas s s) = [no_changes_message]"
  by (simp add: compareSchemas_def Let_def compareEnums_same compareHelpers_same compareTables_same
        generateRecommendations_empty)

theorem compareSchemas_same_witness:
  "changes (compareSchemas sample_schema sample_schema) = []
   \<and> recommendations (compareSchemas sample_schema sample_schema) = [no_changes_message]"
proof -
  have h: "distinct (map enum_name (or_empty (enums sample_schema)))
   \<and> distinct (map helper_name (or_empty (helpers sample_schema)))
   \<and> distinct (map table_name (or_empty (tables sample_schema)))"
    by (simp add: sample_schema_def or_empty_def)
  from compareSchemas_same [of sample_schema] h show ?thesis by blast
qed

text \<open>
  Claim C5 as stated, for every schema, fails: an entry is compared with the first entry
  of its name (\<open>find\<close>), so a schema with two enums of one name and different values,
  compared with itself, reports an added and a removed value.
\<close>

theorem compareSchemas_same_counterexample:
  "map change_type (changes (compareSchemas duplicate_schema duplicate_schema)) =
     [''enum_value_added'', ''enum_value_removed'']
   \<and> recommendations (compareSchemas duplicate_schema duplicate_schema) \<noteq> [no_changes_message]"
  by (simp add: compareSchemas_def Let_def duplicate_schema_def or_empty_def compareEnums_def
        compareEnumValues_def compareHelpers_def compareTables_def generateRecommendations_def)

subsection \<open>The generators\<close>

text \<open>
  The error message of a rejected column is never empty, so the test
  \<open>if (columnResult.error)\<close> holds exactly when an error is set.
\<close>

lemma ColumnGenerator_error_nonempty:
  "col_error (ColumnGenerator d) = Some r \<Longrightarrow> r \<noteq> []"
  by (auto simp: ColumnGenerator_def Let_def column_failed_def split: option.splits)

lemma ColumnGenerator_error_truthy:
  "truthy_str (col_error (ColumnGenerator d)) \<longleftrightarrow> col_error (ColumnGenerator d) \<noteq> None"
  using ColumnGenerator_error_nonempty [of d]
  by (cases "col_error (ColumnGenerator d)") (auto simp: truthy_str_def)

lemma helper_columns_loop_fails:
  assumes "\<forall>c \<in> set pre. col_error (ColumnGenerator c) = None"
    and "col_error (ColumnGenerator bad) = Some reason"
  shows "helper_columns_loop (pre @ bad # post) codes imps tabs =
           Inl (''Error in column '' @ quoted (col_name bad) @ '': '' @ reason)"
  using assms ColumnGenerator_error_truthy [of bad]
proof (induction pre arbitrary: codes imps tabs)
  case Nil
  then show ?case by (simp add: Let_def str_of_def)
next
  case (Cons c pre)
  then show ?case by (simp add: Let_def truthy_str_def)
qed

lemma trim_nonempty: "trim s \<noteq> [] \<Longrightarrow> s \<noteq> []"
  by (auto simp: trim_def)

text \<open>
  Claim C9, amended. For every helper definition whose name is not empty after trimming,
  if the columns before \<open>bad\<close> are accepted by \<open>ColumnGenerator\<close> and \<open>bad\<close> is rejected
  with \<open>reason\<close>, then \<open>HelperGenerator\<close> returns the error
  \<open>Error in column '<name of bad>': <reason>\<close> with empty helper code and no imports, and
  the result is the one for the columns up to \<open>bad\<close>: the columns after it play no part.
\<close>

theorem HelperGenerator_fails_fast:
  "trim (helper_name h) \<noteq> []
   \<and> helper_columns h = pre @ bad # post
   \<and> (\<forall>c \<in> set pre. col_error (ColumnGenerator c) = None)
   \<and> col_error (ColumnGenerator bad) = Some reason \<longrightarrow>
     helper_error (HelperGenerator h) =
       Some (''Error in column '' @ quoted (col_name bad) @ '': '' @ reason)
     \<and> helperCode (HelperGenerator h) = []
     \<and> helper_imports (HelperGenerator h) = []
     \<and> HelperGenerator h = HelperGenerator (h\<lparr>helper_columns := pre @ [bad]\<rparr>)"
proof (intro impI)
  assume a: "trim (helper_name h) \<noteq> []
   \<and> helper_columns h = pre @ bad # post
   \<and> (\<forall>c \<in> set pre. col_error (ColumnGenerator c) = None)
   \<and> col_error (ColumnGenerator bad) = Some reason"
  then have n: "helper_name h \<noteq> []" using trim_nonempty by blast
  let ?msg = "''Error in column '' @ quoted (col_name bad) @ '': '' @ reason"
  from a have l1: "helper_columns_loop (pre @ bad # post) [] [] [] = Inl ?msg"
    using helper_columns_loop_fails by blast
  from a have l2: "helper_columns_loop (pre @ bad # []) [] [] [] = Inl ?msg"
    using helper_columns_loop_fails by blast
  from a n l1 have r1: "HelperGenerator h = helper_failed ?msg"
    by (simp add: HelperGenerator_def Let_def)
  from a n l2 have r2: "HelperGenerator (h\<lparr>helper_columns := pre @ [bad]\<rparr>) = helper_failed ?msg"
    by (simp add: HelperGenerator_def Let_def)
  show "helper_error (HelperGenerator h) = Some ?msg
     \<and> helperCode (HelperGenerator h) = []
     \<and> helper_imports (HelperGenerator h) = []
     \<and> HelperGenerator h = HelperGenerator (h\<lparr>helper_columns := pre @ [bad]\<rparr>)"
    by (simp add: r1 r2 helper_failed_def)
qed

lemma id_column_ok: "col_error (ColumnGenerator id_column) = None"
  by (simp add: id_column_def ColumnGenerator_def Let_def options_of_def no_options_def
        inferType_def truthy_str_def TypeMap_def toLowerCase_def toLowerChar_def
        upper_chars_def lower_chars_def latin_upper_chars_def latin_lower_chars_def)

lemma untyped_column_fails:
  "col_error (ColumnGenerator untyped_column) =
     Some (''Type is required for column '' @ quoted ''status'' @ ''. Provide either '' @
           quoted ''type'' @ '' property or '' @ quoted ''enumValues'' @ '' in options.'')"
  by (simp add: untyped_column_def ColumnGenerator_def Let_def options_of_def no_options_def
        inferType_def truthy_str_def column_failed_def)

theorem HelperGenerator_fails_fast_witness:
  "helper_error (HelperGenerator failing_helper) =
     Some (''Error in column '' @ quoted ''status'' @ '': Type is required for column '' @
           quoted ''status'' @ ''. Provide either '' @ quoted ''type'' @ '' property or '' @
           quoted ''enumValues'' @ '' in options.'')
   \<and> helperCode (HelperGenerator failing_helper) = []
   \<and> HelperGenerator failing_helper =
       HelperGenerator (failing_helper\<lparr>helper_columns := [id_column, untyped_column]\<rparr>)"
proof -
  have h: "trim (helper_name failing_helper) \<noteq> []
   \<and> helper_columns failing_helper = [id_column] @ untyped_column # [unsupported_column]
   \<and> (\<forall>c \<in> set [id_column]. col_error (ColumnGenerator c) = None)
   \<and> col_error (ColumnGenerator untyped_column) =
     Some (''Type is required for column '' @ quoted ''status'' @ ''. Provide either '' @
           quoted ''type'' @ '' property or '' @ quoted ''enumValues'' @ '' in options.'')"
    by (simp add: failing_helper_def trim_def is_space_def id_column_ok untyped_column_fails)
  have n: "col_name untyped_column = ''status''" by (simp add: untyped_column_def)
  from HelperGenerator_fails_fast [of failing_helper "[id_column]" untyped_column
      "[unsupported_column]"
      "''Type is required for column '' @ quoted ''status'' @ ''. Provide either '' @
           quoted ''type'' @ '' property or '' @ quoted ''enumValues'' @ '' in options.''"] h
  have r: "helper_error (HelperGenerator failing_helper) =
       Some (''Error in column '' @ quoted (col_name untyped_column) @ '': '' @
             (''Type is required for column '' @ quoted ''status'' @ ''. Provide either '' @
              quoted ''type'' @ '' property or '' @ quoted ''enumValues'' @ '' in options.''))
     \<and> helperCode (HelperGenerator failing_helper) = []
     \<and> helper_imports (HelperGenerator failing_helper) = []
     \<and> HelperGenerator failing_helper =
         HelperGenerator (failing_helper\<lparr>helper_columns := [id_column] @ [untyped_column]\<rparr>)"
    by (rule mp)
  from r [THEN conjunct1] have 1: "helper_error (HelperGenerator failing_helper) =
     Some (''Error in column '' @ quoted ''status'' @ '': Type is required for column '' @
           quoted ''status'' @ ''. Provide either '' @ quoted ''type'' @ '' property or '' @
           quoted ''enumValues'' @ '' in options.'')"
    by (simp add: n)
  from r [THEN conjunct2, THEN conjunct1]
  have 2: "helperCode (HelperGenerator failing_helper) = []" .
  from r [THEN conjunct2, THEN conjunct2, THEN conjunct2] have 3: "HelperGenerator failing_helper =
       HelperGenerator (failing_helper\<lparr>helper_columns := [id_column, untyped_column]\<rparr>)"
    by simp
  from 1 2 3 show ?thesis by (intro conjI)
qed

text \<open>
  Claim C9 as stated, for a non-empty name, fails: a name of three spaces is not empty,
  the helper has a column and the column is rejected, yet the error returned is that the
  helper name is required, since the name is tested after trimming.
\<close>

theorem HelperGenerator_blank_name_counterexample:
  "helper_name blank_helper \<noteq> [] \<and> helper_columns blank_helper \<noteq> []
   \<and> col_error (ColumnGenerator (hd (helper_columns blank_helper))) \<noteq> None
   \<and> helper_error (HelperGenerator blank_helper) = Some ''Helper name is required.''"
  by (simp add: blank_helper_def untyped_column_fails HelperGenerator_def Let_def trim_def
        is_space_def helper_failed_def)

lemma trim_whitespace: "list_all is_space s \<Longrightarrow> trim s = []"
proof -
  assume "list_all is_space s"
  then have "dropWhile is_space s = []" by (induction s) auto
  then show ?thesis unfolding trim_def by (simp only: rev.simps dropWhile.simps)
qed

lemma space_not_upper: "is_space c \<Longrightarrow> \<not> is_upper c"
  by (auto simp: is_space_def is_upper_def upper_chars_def)

lemma snake_from_whitespace: "list_all is_space s \<Longrightarrow> snake_from i s = s"
  by (induction s arbitrary: i) (auto simp: space_not_upper)

text \<open>
  Claim C10. For a name that is not empty and consists of white space only, the no-break
  space included, \<open>HelperGenerator\<close> and \<open>TableGenerator\<close> return the error that the name
  is required and no code, whatever the rest of the definition is; \<open>EnumGenerator\<close>, given
  at least one value, returns no error and an enum declaration that carries the name as
  it is, as the identifier and, the name having no capital, as the database name.
\<close>

theorem whitespace_name_asymmetry:
  "whitespace_only name \<longrightarrow>
     helper_error (HelperGenerator \<lparr>helper_name = name, helper_columns = cols\<rparr>) =
       Some ''Helper name is required.''
     \<and> helperCode (HelperGenerator \<lparr>helper_name = name, helper_columns = cols\<rparr>) = []
     \<and> table_error (TableGenerator (t\<lparr>table_name := name\<rparr>)) = Some ''Table name is required.''
     \<and> tableCode (TableGenerator (t\<lparr>table_name := name\<rparr>)) = []
     \<and> enum_error (EnumGenerator \<lparr>enum_name = name, enum_values = v # vs\<rparr>) = None
     \<and> (\<exists>rendered.
          enumCode (EnumGenerator \<lparr>enum_name = name, enum_values = v # vs\<rparr>) =
            ''export const '' @ name @ '' = pgEnum('' @ quoted name @ '', ['' @ rendered @
            ''] as const);'')"
proof (intro impI)
  assume w: "whitespace_only name"
  then have t: "trim name = []" and n: "name \<noteq> []" and sn: "SnakeCase name = name"
    by (simp_all add: whitespace_only_def trim_whitespace SnakeCase_def snake_from_whitespace)
  have 1: "helper_error (HelperGenerator \<lparr>helper_name = name, helper_columns = cols\<rparr>) =
       Some ''Helper name is required.''"
    by (simp add: HelperGenerator_def Let_def t helper_failed_def)
  have 2: "helperCode (HelperGenerator \<lparr>helper_name = name, helper_columns = cols\<rparr>) = []"
    by (simp add: HelperGenerator_def Let_def t helper_failed_def)
  have 3: "table_error (TableGenerator (t\<lparr>table_name := name\<rparr>)) = Some ''Table name is required.''"
    by (simp add: TableGenerator_def Let_def t table_failed_def)
  have 4: "tableCode (TableGenerator (t\<lparr>table_name := name\<rparr>)) = []"
    by (simp add: TableGenerator_def Let_def t table_failed_def)
  have 5: "enum_error (EnumGenerator \<lparr>enum_name = name, enum_values = v # vs\<rparr>) = None"
    by (simp add: EnumGenerator_def Let_def n)
  have "enumCode (EnumGenerator \<lparr>enum_name = name, enum_values = v # vs\<rparr>) =
            ''export const '' @ name @ '' = pgEnum('' @ quoted name @ '', ['' @
            join '', '' (map (\<lambda>v. quoted (PascalCase v)) (v # vs)) @ ''] as const);''"
    by (simp add: EnumGenerator_def Let_def n sn)
  then have 6: "\<exists>rendered.
          enumCode (EnumGenerator \<lparr>enum_name = name, enum_values = v # vs\<rparr>) =
            ''export const '' @ name @ '' = pgEnum('' @ quoted name @ '', ['' @ rendered @
            ''] as const);''"
    by blast
  from 1 2 3 4 5 6
  show "helper_error (HelperGenerator \<lparr>helper_name = name, helper_columns = cols\<rparr>) =
       Some ''Helper name is required.''
     \<and> helperCode (HelperGenerator \<lparr>helper_name = name, helper_columns = cols\<rparr>) = []
     \<and> table_error (TableGenerator (t\<lparr>table_name := name\<rparr>)) = Some ''Table name is required.''
     \<and> tableCode (TableGenerator (t\<lparr>table_name := name\<rparr>)) = []
     \<and> enum_error (EnumGenerator \<lparr>enum_name = name, enum_values = v # vs\<rparr>) = None
     \<and> (\<exists>rendered.
          enumCode (EnumGenerator \<lparr>enum_name = name, enum_values = v # vs\<rparr>) =
            ''export const '' @ name @ '' = pgEnum('' @ quoted name @ '', ['' @ rendered @
            ''] as const);'')"
    by (intro conjI)
qed

theorem whitespace_name_asymmetry_witness:
  "whitespace_only blank_name
   \<and> helper_error (HelperGenerator \<lparr>helper_name = blank_name, helper_columns = [id_column]\<rparr>) =
       Some ''Helper name is required.''
   \<and> helperCode (HelperGenerator \<lparr>helper_name = blank_name, helper_columns = [id_column]\<rparr>) = []
   \<and> table_error (TableGenerator (id_table\<lparr>table_name := blank_name\<rparr>)) =
       Some ''Table name is required.''
   \<and> tableCode (TableGenerator (id_table\<lparr>table_name := blank_name\<rparr>)) = []
   \<and> enum_error (EnumGenerator \<lparr>enum_name = blank_name, enum_values = [''active'']\<rparr>) = None
   \<and> enumCode (EnumGenerator \<lparr>enum_name = blank_name, enum_values = [''active'']\<rparr>) =
       ''export const '' @ blank_name @ '' = pgEnum('' @ quoted blank_name @ '', ['' @
       quoted ''Active'' @ ''] as const);''"
proof -
  have w: "whitespace_only blank_name" by (simp add: whitespace_only_def is_space_def blank_name_def)
  have c: "enumCode (EnumGenerator \<lparr>enum_name = blank_name, enum_values = [''active'']\<rparr>) =
       ''export const '' @ blank_name @ '' = pgEnum('' @ quoted blank_name @ '', ['' @
       quoted ''Active'' @ ''] as const);''"
    by code_simp
  from whitespace_name_asymmetry [of blank_name "[id_column]" id_table "''active''" "[]"] w
  have r: "helper_error (HelperGenerator \<lparr>helper_name = blank_name, helper_columns = [id_column]\<rparr>) =
       Some ''Helper name is required.''
     \<and> helperCode (HelperGenerator \<lparr>helper_name = blank_name, helper_columns = [id_column]\<rparr>) = []
     \<and> table_error (TableGenerator (id_table\<lparr>table_name := blank_name\<rparr>)) =
         Some ''Table name is required.''
     \<and> tableCode (TableGenerator (id_table\<lparr>table_name := blank_name\<rparr>)) = []
     \<and> enum_error (EnumGenerator \<lparr>enum_name = blank_name, enum_values = [''active'']\<rparr>) = None
     \<and> (\<exists>rendered.
          enumCode (EnumGenerator \<lparr>enum_name = blank_name, enum_values = [''active'']\<rparr>) =
            ''export const '' @ blank_name @ '' = pgEnum('' @ quoted blank_name @ '', ['' @ rendered @
            ''] as const);'')"
    by (rule mp)
  note r1 = r [THEN conjunct1]
  note r2 = r [THEN conjunct2, THEN conjunct1]
  note r3 = r [THEN conjunct2, THEN conjunct2, THEN conjunct1]
  note r4 = r [THEN conjunct2, THEN conjunct2, THEN conjunct2, THEN conjunct1]
  note r5 = r [THEN conjunct2, THEN conjunct2, THEN conjunct2, THEN conjunct2, THEN conjunct1]
  from w r1 r2 r3 r4 r5 c show ?thesis by (intro conjI)
qed

text \<open>
  Imports. No column imports \<open>primaryKey\<close> from \<open>drizzle-orm/pg-core\<close>: what a column
  imports from there is a value of the type map.
\<close>

lemma imported_addImportToMap:
  "imported (addImportToMap m p n) p' =
     (if p' = p then (if n \<in> set (imported m p) then imported m p else imported m p @ [n])
      else imported m p')"
  by (induction m) (auto simp: imported_def)

lemma clean_addImportToMap:
  "pg_core_clean m \<Longrightarrow> p \<noteq> ''drizzle-orm/pg-core'' \<or> n \<noteq> ''primaryKey'' \<Longrightarrow>
     pg_core_clean (addImportToMap m p n)"
  by (induction m) (auto simp: pg_core_clean_def)

lemma clean_addImports:
  "pg_core_clean m \<Longrightarrow> p = ''drizzle-orm/pg-core'' \<longrightarrow> ''primaryKey'' \<notin> set ns \<Longrightarrow>
     pg_core_clean (addImports m p ns)"
proof (induction ns arbitrary: m)
  case Nil
  then show ?case by simp
next
  case (Cons n ns)
  from Cons.prems have "pg_core_clean (addImportToMap m p n)"
    by (intro clean_addImportToMap) auto
  with Cons show ?case by simp
qed

lemma clean_merge_imports:
  "pg_core_clean m \<Longrightarrow> pg_core_clean m2 \<Longrightarrow> pg_core_clean (merge_imports m m2)"
proof (induction m2 arbitrary: m)
  case Nil
  then show ?case by simp
next
  case (Cons e m2)
  obtain p ns where e: "e = (p, ns)" by (cases e)
  from Cons.prems have "pg_core_clean (addImports m p ns)"
    by (intro clean_addImports) (auto simp: pg_core_clean_def e)
  moreover from Cons.prems have "pg_core_clean m2" by (simp add: pg_core_clean_def)
  ultimately show ?case using Cons.IH by (simp add: e)
qed

lemma TypeMap_not_primaryKey: "TypeMap key = Some f \<Longrightarrow> f \<noteq> ''primaryKey''"
  by (auto simp: TypeMap_def split: if_splits)

lemma clean_ColumnGenerator: "pg_core_clean (col_imports (ColumnGenerator d))"
proof (cases "inferType (col_type d) (options_of d)")
  case None
  then show ?thesis by (simp add: ColumnGenerator_def Let_def column_failed_def pg_core_clean_def)
next
  case (Some ty)
  show ?thesis
  proof (cases "TypeMap (toLowerCase ty)")
    case None
    with Some show ?thesis
      by (simp add: ColumnGenerator_def Let_def column_failed_def pg_core_clean_def)
  next
    case (Some f)
    then have f: "f \<noteq> ''primaryKey''" by (rule TypeMap_not_primaryKey)
    show ?thesis
      using \<open>inferType (col_type d) (options_of d) = Some ty\<close> Some f
      by (auto simp: ColumnGenerator_def Let_def pg_core_clean_def split: option.splits)
  qed
qed

lemma clean_table_columns_loop:
  "pg_core_clean imps \<Longrightarrow> table_columns_loop cols codes imps tabs = Inr (c, i, t) \<Longrightarrow>
     pg_core_clean i"
proof (induction cols arbitrary: codes imps tabs)
  case Nil
  then show ?case by simp
next
  case (Cons col cols)
  from Cons.prems(1) have "pg_core_clean (merge_imports imps (col_imports (ColumnGenerator col)))"
    by (intro clean_merge_imports clean_ColumnGenerator)
  with Cons show ?case by (auto simp: Let_def split: if_splits)
qed

lemma clean_imported:
  "pg_core_clean m \<Longrightarrow> ''primaryKey'' \<notin> set (imported m ''drizzle-orm/pg-core'')"
  by (induction m) (auto simp: pg_core_clean_def imported_def)

lemma table_columns_loop_ok:
  "\<forall>c \<in> set cols. col_error (ColumnGenerator c) = None \<Longrightarrow>
     \<exists>r. table_columns_loop cols codes imps tabs = Inr r"
  by (induction cols arbitrary: codes imps tabs) (auto simp: Let_def truthy_str_def)

text \<open>
  The loop over the columns of a table: when it ends without an error, every column was
  accepted and the codes gathered are the entries of the columns, in order. An entry
  starts with the name of its column.
\<close>

lemma table_columns_loop_codes:
  "table_columns_loop cols codes imps tabs = Inr (c, i, t) \<Longrightarrow>
     c = codes @ map column_entry cols"
proof (induction cols arbitrary: codes imps tabs)
  case Nil
  then show ?case by simp
next
  case (Cons col cols)
  from Cons.prems have "table_columns_loop cols
          (codes @ [''    '' @ strip_commas (column (ColumnGenerator col))])
          (merge_imports imps (col_imports (ColumnGenerator col)))
          (tabs @ col_tables (ColumnGenerator col)) = Inr (c, i, t)"
    by (auto simp: Let_def split: if_splits)
  then have "c = (codes @ [''    '' @ strip_commas (column (ColumnGenerator col))]) @
                   map column_entry cols"
    by (rule Cons.IH)
  then show ?case by (simp add: column_entry_def)
qed

lemma table_columns_loop_accepted:
  "table_columns_loop cols codes imps tabs = Inr r \<Longrightarrow>
     \<forall>c \<in> set cols. col_error (ColumnGenerator c) = None"
proof (induction cols arbitrary: codes imps tabs)
  case Nil
  then show ?case by simp
next
  case (Cons col cols)
  from Cons.prems have e: "\<not> truthy_str (col_error (ColumnGenerator col))"
    by (auto simp: Let_def split: if_splits)
  then have "col_error (ColumnGenerator col) = None"
    by (simp add: ColumnGenerator_error_truthy)
  moreover from Cons.prems e have "\<forall>c \<in> set cols. col_error (ColumnGenerator c) = None"
    by (intro Cons.IH [of "codes @ [''    '' @ strip_commas (column (ColumnGenerator col))]"
          "merge_imports imps (col_imports (ColumnGenerator col))"
          "tabs @ col_tables (ColumnGenerator col)"]) (simp add: Let_def)
  ultimately show ?case by simp
qed

lemma TableGenerator_succeeds_iff:
  "table_error (TableGenerator t) = None \<longleftrightarrow>
     trim (table_name t) \<noteq> []
     \<and> (columns t \<noteq> [] \<or> or_empty (helperReferences t) \<noteq> [])
     \<and> (\<forall>c \<in> set (columns t). col_error (ColumnGenerator c) = None)"
proof
  assume v: "trim (table_name t) \<noteq> []
     \<and> (columns t \<noteq> [] \<or> or_empty (helperReferences t) \<noteq> [])
     \<and> (\<forall>c \<in> set (columns t). col_error (ColumnGenerator c) = None)"
  then have n: "table_name t \<noteq> []" using trim_nonempty by blast
  from v obtain r where "table_columns_loop (columns t) []
                  (addImportToMap [] ''drizzle-orm/pg-core'' ''pgTable'') [] = Inr r"
    using table_columns_loop_ok by blast
  with v n show "table_error (TableGenerator t) = None"
    by (cases r) (auto simp: TableGenerator_def Let_def or_empty_def split: option.splits)
next
  assume e: "table_error (TableGenerator t) = None"
  have 1: "trim (table_name t) \<noteq> []"
    using e by (auto simp: TableGenerator_def Let_def table_failed_def split: if_splits)
  have 2: "columns t \<noteq> [] \<or> or_empty (helperReferences t) \<noteq> []"
    using e by (auto simp: TableGenerator_def Let_def table_failed_def or_empty_def
                  split: if_splits option.splits)
  have "\<exists>r. table_columns_loop (columns t) []
                  (addImportToMap [] ''drizzle-orm/pg-core'' ''pgTable'') [] = Inr r"
    using e
    by (cases "table_columns_loop (columns t) []
                  (addImportToMap [] ''drizzle-orm/pg-core'' ''pgTable'') []")
       (auto simp: TableGenerator_def Let_def table_failed_def split: if_splits)
  then have 3: "\<forall>c \<in> set (columns t). col_error (ColumnGenerator c) = None"
    using table_columns_loop_accepted by blast
  from 1 2 3 show "trim (table_name t) \<noteq> []
     \<and> (columns t \<noteq> [] \<or> or_empty (helperReferences t) \<noteq> [])
     \<and> (\<forall>c \<in> set (columns t). col_error (ColumnGenerator c) = None)"
    by (intro conjI)
qed

lemma TableGenerator_single_key_code:
  assumes k: "compositePrimaryKey t = Some [k]"
    and e: "table_error (TableGenerator t) = None"
  shows "tableCode (TableGenerator t) =
            ''export const '' @ toLowerCase (table_name t) @ '' = pgTable('' @
            quoted (if truthy_str (dbName t) then str_of (dbName t) else SnakeCase (table_name t)) @
            '', {'' @ [NL] @
            join ('','' @ [NL])
              (map column_entry (columns t) @
               map helper_spread (or_empty (helperReferences t))) @
            [NL] @ ''});''"
proof -
  from e have v: "trim (table_name t) \<noteq> []"
     "columns t \<noteq> [] \<or> or_empty (helperReferences t) \<noteq> []"
    by (simp_all add: TableGenerator_succeeds_iff)
  then have n: "table_name t \<noteq> []" using trim_nonempty by blast
  from e obtain c i tt where l: "table_columns_loop (columns t) []
                  (addImportToMap [] ''drizzle-orm/pg-core'' ''pgTable'') [] = Inr (c, i, tt)"
    by (cases "table_columns_loop (columns t) []
                  (addImportToMap [] ''drizzle-orm/pg-core'' ''pgTable'') []")
       (auto simp: TableGenerator_def Let_def table_failed_def split: if_splits)
  then have c: "c = map column_entry (columns t)"
    using table_columns_loop_codes by fastforce
  have hs: "(@) ''    ...'' = helper_spread"
    by (simp add: fun_eq_iff helper_spread_def)
  have h: "(case helperReferences t of None \<Rightarrow> [] | Some hs \<Rightarrow> hs) = or_empty (helperReferences t)"
    by (simp add: or_empty_def)
  from v(2) have nn: "\<not> (columns t = [] \<and> or_empty (helperReferences t) = [])" by simp
  show ?thesis
    using k v(1) n l nn c
    by (auto simp: TableGenerator_def Let_def compositePKCode_def h hs)
qed


lemma strip_commas_prefix:
  assumes "p \<noteq> []" "last p \<noteq> CHR '',''"
  shows "startsWith (strip_commas (p @ s)) p"
proof -
  let ?c = "\<lambda>c. c = CHR '',''"
  from assms have d: "dropWhile ?c (rev p) = rev p"
    by (cases p rule: rev_cases) simp_all
  have "\<exists>r. dropWhile ?c (rev s @ rev p) = r @ rev p"
  proof (cases "\<forall>x \<in> set (rev s). ?c x")
    case True
    then have "dropWhile ?c (rev s @ rev p) = dropWhile ?c (rev p)"
      by (simp add: dropWhile_append)
    with d show ?thesis by simp
  next
    case False
    then have "dropWhile ?c (rev s @ rev p) = dropWhile ?c (rev s) @ rev p"
      by (auto simp: dropWhile_append)
    then show ?thesis by blast
  qed
  then obtain r where "dropWhile ?c (rev (p @ s)) = r @ rev p" by auto
  then have "strip_commas (p @ s) = p @ rev r" by (simp add: strip_commas_def)
  then show ?thesis by (simp add: startsWith_def)
qed

lemma column_entry_name:
  assumes "col_error (ColumnGenerator c) = None"
  shows "startsWith (column_entry c) (''    '' @ col_name c @ '': '')"
proof -
  from assms have "\<exists>rest. column (ColumnGenerator c) = (col_name c @ '': '') @ rest"
    by (auto simp: ColumnGenerator_def Let_def column_failed_def split: option.splits)
  then obtain rest where "column (ColumnGenerator c) = (col_name c @ '': '') @ rest" ..
  moreover have "startsWith (strip_commas ((col_name c @ '': '') @ rest)) (col_name c @ '': '')"
    by (rule strip_commas_prefix) simp_all
  ultimately show ?thesis by (simp add: column_entry_def startsWith_def)
qed

text \<open>
  Claim C8. For every table definition whose composite primary key has exactly one
  element, \<open>TableGenerator\<close> returns what it returns for the same definition with no
  composite key, and \<open>primaryKey\<close>, the function of \<open>drizzle-orm/pg-core\<close> that a key of two
  or more columns brings in, is not among the names imported from there. It succeeds
  exactly when the other requirements of the generator are met: the name is not empty
  after trimming, there is a column or a helper reference, and every column is accepted
  by \<open>ColumnGenerator\<close>. When it succeeds, the code is the declaration with two arguments,
  the database name and the object of the entries, one entry for each column, starting
  with the name of the column, and then the helper spreads; the closing brace of the
  object is followed at once by the closing parenthesis: there is no constraint block.
\<close>

theorem single_key_ignored:
  "compositePrimaryKey t = Some [k] \<longrightarrow>
     TableGenerator t = TableGenerator (t\<lparr>compositePrimaryKey := None\<rparr>)
     \<and> ''primaryKey'' \<notin> set (imported (table_imports (TableGenerator t)) ''drizzle-orm/pg-core'')
     \<and> (table_error (TableGenerator t) = None \<longleftrightarrow>
          trim (table_name t) \<noteq> []
          \<and> (columns t \<noteq> [] \<or> or_empty (helperReferences t) \<noteq> [])
          \<and> (\<forall>c \<in> set (columns t). col_error (ColumnGenerator c) = None))
     \<and> (table_error (TableGenerator t) = None \<longrightarrow>
          (\<exists>codes.
             list_all2 (\<lambda>code c. startsWith code (''    '' @ col_name c @ '': '')) codes (columns t)
             \<and> tableCode (TableGenerator t) =
                 ''export const '' @ toLowerCase (table_name t) @ '' = pgTable('' @
                 quoted (if truthy_str (dbName t) then str_of (dbName t)
                         else SnakeCase (table_name t)) @
                 '', {'' @ [NL] @
                 join ('','' @ [NL]) (codes @ map helper_spread (or_empty (helperReferences t))) @
                 [NL] @ ''});''))"
proof (intro impI)
  assume k: "compositePrimaryKey t = Some [k]"
  have 1: "TableGenerator t = TableGenerator (t\<lparr>compositePrimaryKey := None\<rparr>)"
    using k by (simp add: TableGenerator_def Let_def compositePKCode_def split: sum.splits prod.splits)
  have c: "pg_core_clean (table_imports (TableGenerator t))"
  proof (cases "table_columns_loop (columns t) []
                  (addImportToMap [] ''drizzle-orm/pg-core'' ''pgTable'') []")
    case (Inl msg)
    then show ?thesis
      by (simp add: TableGenerator_def Let_def table_failed_def pg_core_clean_def)
  next
    case (Inr r)
    obtain cc i tt where r: "r = (cc, i, tt)" by (cases r)
    have "pg_core_clean (addImportToMap [] ''drizzle-orm/pg-core'' ''pgTable'')"
      by (simp add: pg_core_clean_def)
    with Inr r have "pg_core_clean i" using clean_table_columns_loop by blast
    then have "pg_core_clean (addImports i ''../helpers/index.js'' hs)" for hs
      by (intro clean_addImports) auto
    with Inr r k show ?thesis
      by (simp add: TableGenerator_def Let_def table_failed_def pg_core_clean_def)
  qed
  then have 2: "''primaryKey'' \<notin> set (imported (table_imports (TableGenerator t)) ''drizzle-orm/pg-core'')"
    by (rule clean_imported)
  note 3 = TableGenerator_succeeds_iff [of t]
  have 4: "table_error (TableGenerator t) = None \<longrightarrow>
          (\<exists>codes.
             list_all2 (\<lambda>code c. startsWith code (''    '' @ col_name c @ '': '')) codes (columns t)
             \<and> tableCode (TableGenerator t) =
                 ''export const '' @ toLowerCase (table_name t) @ '' = pgTable('' @
                 quoted (if truthy_str (dbName t) then str_of (dbName t)
                         else SnakeCase (table_name t)) @
                 '', {'' @ [NL] @
                 join ('','' @ [NL]) (codes @ map helper_spread (or_empty (helperReferences t))) @
                 [NL] @ ''});'')"
  proof (rule impI)
    assume e: "table_error (TableGenerator t) = None"
    then have "\<forall>c \<in> set (columns t). col_error (ColumnGenerator c) = None"
      by (simp add: TableGenerator_succeeds_iff)
    then have "list_all2 (\<lambda>code c. startsWith code (''    '' @ col_name c @ '': ''))
                 (map column_entry (columns t)) (columns t)"
      using column_entry_name by (auto simp: list_all2_map1 list_all2_same)
    with TableGenerator_single_key_code [OF k e]
    show "\<exists>codes.
             list_all2 (\<lambda>code c. startsWith code (''    '' @ col_name c @ '': '')) codes (columns t)
             \<and> tableCode (TableGenerator t) =
                 ''export const '' @ toLowerCase (table_name t) @ '' = pgTable('' @
                 quoted (if truthy_str (dbName t) then str_of (dbName t)
                         else SnakeCase (table_name t)) @
                 '', {'' @ [NL] @
                 join ('','' @ [NL]) (codes @ map helper_spread (or_empty (helperReferences t))) @
                 [NL] @ ''});''"
      by blast
  qed
  from 1 2 3 4 show "TableGenerator t = TableGenerator (t\<lparr>compositePrimaryKey := None\<rparr>)
     \<and> ''primaryKey'' \<notin> set (imported (table_imports (TableGenerator t)) ''drizzle-orm/pg-core'')
     \<and> (table_error (TableGenerator t) = None \<longleftrightarrow>
          trim (table_name t) \<noteq> []
          \<and> (columns t \<noteq> [] \<or> or_empty (helperReferences t) \<noteq> [])
          \<and> (\<forall>c \<in> set (columns t). col_error (ColumnGenerator c) = None))
     \<and> (table_error (TableGenerator t) = None \<longrightarrow>
          (\<exists>codes.
             list_all2 (\<lambda>code c. startsWith code (''    '' @ col_name c @ '': '')) codes (columns t)
             \<and> tableCode (TableGenerator t) =
                 ''export const '' @ toLowerCase (table_name t) @ '' = pgTable('' @
                 quoted (if truthy_str (dbName t) then str_of (dbName t)
                         else SnakeCase (table_name t)) @
                 '', {'' @ [NL] @
                 join ('','' @ [NL]) (codes @ map helper_spread (or_empty (helperReferences t))) @
                 [NL] @ ''});''))"
    by (intro conjI)
qed

theorem single_key_ignored_witness:
  "compositePrimaryKey single_key_table = Some [''id'']
   \<and> TableGenerator single_key_table = TableGenerator (single_key_table\<lparr>compositePrimaryKey := None\<rparr>)
   \<and> ''primaryKey'' \<notin> set (imported (table_imports (TableGenerator single_key_table)) ''drizzle-orm/pg-core'')
   \<and> table_error (TableGenerator single_key_table) = None
   \<and> (\<exists>codes.
         list_all2 (\<lambda>code c. startsWith code (''    '' @ col_name c @ '': '')) codes (columns single_key_table)
         \<and> tableCode (TableGenerator single_key_table) =
             ''export const '' @ toLowerCase (table_name single_key_table) @ '' = pgTable('' @
             quoted (if truthy_str (dbName single_key_table) then str_of (dbName single_key_table)
                     else SnakeCase (table_name single_key_table)) @
             '', {'' @ [NL] @
             join ('','' @ [NL]) (codes @ map helper_spread (or_empty (helperReferences single_key_table))) @
             [NL] @ ''});'')
   \<and> tableCode (TableGenerator single_key_table) =
       ''export const users = pgTable('' @ quoted ''users'' @ '', {'' @ [NL] @
       ''    id: serial('' @ quoted ''id'' @ '')'' @ [NL] @ ''});''
   \<and> table_imports (TableGenerator single_key_table) =
       [(''drizzle-orm/pg-core'', [''pgTable'', ''serial''])]"
proof -
  have k: "compositePrimaryKey single_key_table = Some [''id'']" by (simp add: single_key_table_def)
  have i: "table_imports (TableGenerator single_key_table) =
       [(''drizzle-orm/pg-core'', [''pgTable'', ''serial''])]"
    by code_simp
  have v: "trim (table_name single_key_table) \<noteq> []
          \<and> (columns single_key_table \<noteq> [] \<or> or_empty (helperReferences single_key_table) \<noteq> [])
          \<and> (\<forall>c \<in> set (columns single_key_table). col_error (ColumnGenerator c) = None)"
    by code_simp
  have t: "tableCode (TableGenerator single_key_table) =
       ''export const users = pgTable('' @ quoted ''users'' @ '', {'' @ [NL] @
       ''    id: serial('' @ quoted ''id'' @ '')'' @ [NL] @ ''});''"
    by code_simp
  from single_key_ignored [of single_key_table "''id''"] k
  have r: "TableGenerator single_key_table = TableGenerator (single_key_table\<lparr>compositePrimaryKey := None\<rparr>)
     \<and> ''primaryKey'' \<notin> set (imported (table_imports (TableGenerator single_key_table)) ''drizzle-orm/pg-core'')
     \<and> (table_error (TableGenerator single_key_table) = None \<longleftrightarrow>
          trim (table_name single_key_table) \<noteq> []
          \<and> (columns single_key_table \<noteq> [] \<or> or_empty (helperReferences single_key_table) \<noteq> [])
          \<and> (\<forall>c \<in> set (columns single_key_table). col_error (ColumnGenerator c) = None))
     \<and> (table_error (TableGenerator single_key_table) = None \<longrightarrow>
          (\<exists>codes.
             list_all2 (\<lambda>code c. startsWith code (''    '' @ col_name c @ '': '')) codes (columns single_key_table)
             \<and> tableCode (TableGenerator single_key_table) =
                 ''export const '' @ toLowerCase (table_name single_key_table) @ '' = pgTable('' @
                 quoted (if truthy_str (dbName single_key_table) then str_of (dbName single_key_table)
                         else SnakeCase (table_name single_key_table)) @
                 '', {'' @ [NL] @
                 join ('','' @ [NL]) (codes @ map helper_spread (or_empty (helperReferences single_key_table))) @
                 [NL] @ ''});''))"
    by (rule mp)
  from r [THEN conjunct2, THEN conjunct2, THEN conjunct1] v
  have e: "table_error (TableGenerator single_key_table) = None" by (rule iffD2)
  from r [THEN conjunct2, THEN conjunct2, THEN conjunct2] e
  have c: "\<exists>codes.
         list_all2 (\<lambda>code c. startsWith code (''    '' @ col_name c @ '': '')) codes (columns single_key_table)
         \<and> tableCode (TableGenerator single_key_table) =
             ''export const '' @ toLowerCase (table_name single_key_table) @ '' = pgTable('' @
             quoted (if truthy_str (dbName single_key_table) then str_of (dbName single_key_table)
                     else SnakeCase (table_name single_key_table)) @
             '', {'' @ [NL] @
             join ('','' @ [NL]) (codes @ map helper_spread (or_empty (helperReferences single_key_table))) @
             [NL] @ ''});''"
    by (rule mp)
  note r1 = r [THEN conjunct1]
  note r2 = r [THEN conjunct2, THEN conjunct1]
  from k r1 r2 e c t i show ?thesis by (intro conjI)
qed

lemma toLowerCase_enum: "toLowerCase ''enum'' = ''enum''"
  by (simp add: toLowerCase_def toLowerChar_def upper_chars_def lower_chars_def latin_upper_chars_def latin_lower_chars_def)

lemma TypeMap_enum: "TypeMap ''enum'' = Some ''pgEnum''"
  by (simp add: TypeMap_def)

lemma startsWith_append: "startsWith (p @ rest) p"
  by (simp add: startsWith_def)

lemma ColumnGenerator_enum:
  assumes ev: "enumValues (options_of d) = Some ev" "ev \<noteq> []"
    and ty: "inferType (col_type d) (options_of d) = Some ty" "toLowerCase ty = ''enum''"
  shows "col_error (ColumnGenerator d) = None
     \<and> startsWith (column (ColumnGenerator d))
          (col_name d @ '': '' @ ev @ ''('' @ quoted (col_name d) @ '')'')
     \<and> imported (col_imports (ColumnGenerator d)) ''../enums/index.js'' = [ev]
     \<and> imported (col_imports (ColumnGenerator d)) ''drizzle-orm/pg-core'' = []"
proof -
  let ?head = "col_name d @ '': '' @ ev @ ''('' @ quoted (col_name d) @ '')''"
  have e: "col_error (ColumnGenerator d) = None"
    using ev ty by (simp add: ColumnGenerator_def Let_def TypeMap_enum)
  have "\<exists>rest. column (ColumnGenerator d) = ?head @ rest"
    using ev ty
    by (simp add: ColumnGenerator_def Let_def TypeMap_enum truthy_str_def str_of_def
          split: option.splits)
  then have c: "startsWith (column (ColumnGenerator d)) ?head"
    using startsWith_append by (metis)
  have i: "imported (col_imports (ColumnGenerator d)) ''../enums/index.js'' = [ev]
     \<and> imported (col_imports (ColumnGenerator d)) ''drizzle-orm/pg-core'' = []"
    using ev ty
    by (simp add: ColumnGenerator_def Let_def TypeMap_enum truthy_str_def str_of_def
          imported_addImportToMap imported_def split: option.splits)
  from e c i show ?thesis by (intro conjI) (assumption | rule conjunct1, assumption | rule conjunct2, assumption)+
qed

text \<open>
  Claim C2, amended. When \<open>options.enumValues\<close> is a non-empty string and the type is
  absent, empty or \<open>enum\<close> in any letter case, the column is rendered as an enum column:
  no error, the code starts with the column name, the enum's own name as constructor and
  the quoted column name as its only argument, the enum is imported from
  \<open>../enums/index.js\<close> and nothing from \<open>drizzle-orm/pg-core\<close>. When the type is set to
  anything else, the type takes precedence: the result is the one for the same definition
  without \<open>enumValues\<close>.
\<close>

theorem enum_column_rendering:
  "(enumValues (options_of d) = Some ev \<and> ev \<noteq> []
    \<and> (col_type d = None \<or> col_type d = Some [] \<or> (\<exists>t. col_type d = Some t \<and> toLowerCase t = ''enum'')) \<longrightarrow>
      col_error (ColumnGenerator d) = None
      \<and> startsWith (column (ColumnGenerator d))
           (col_name d @ '': '' @ ev @ ''('' @ quoted (col_name d) @ '')'')
      \<and> imported (col_imports (ColumnGenerator d)) ''../enums/index.js'' = [ev]
      \<and> imported (col_imports (ColumnGenerator d)) ''drizzle-orm/pg-core'' = [])
   \<and> (col_type d = Some t \<and> t \<noteq> [] \<and> toLowerCase t \<noteq> ''enum'' \<longrightarrow>
        ColumnGenerator d =
          ColumnGenerator (d\<lparr>col_options := Some ((options_of d)\<lparr>enumValues := None\<rparr>)\<rparr>))"
proof (rule conjI)
  show "enumValues (options_of d) = Some ev \<and> ev \<noteq> []
    \<and> (col_type d = None \<or> col_type d = Some [] \<or> (\<exists>t. col_type d = Some t \<and> toLowerCase t = ''enum'')) \<longrightarrow>
      col_error (ColumnGenerator d) = None
      \<and> startsWith (column (ColumnGenerator d))
           (col_name d @ '': '' @ ev @ ''('' @ quoted (col_name d) @ '')'')
      \<and> imported (col_imports (ColumnGenerator d)) ''../enums/index.js'' = [ev]
      \<and> imported (col_imports (ColumnGenerator d)) ''drizzle-orm/pg-core'' = []"
  proof (rule impI)
    assume a: "enumValues (options_of d) = Some ev \<and> ev \<noteq> []
      \<and> (col_type d = None \<or> col_type d = Some [] \<or> (\<exists>t. col_type d = Some t \<and> toLowerCase t = ''enum''))"
    then consider (none) "col_type d = None" | (empty) "col_type d = Some []"
      | (enum) t where "col_type d = Some t" "toLowerCase t = ''enum''"
      by auto
    then have "\<exists>ty. inferType (col_type d) (options_of d) = Some ty \<and> toLowerCase ty = ''enum''"
    proof cases
      case none
      with a have "inferType (col_type d) (options_of d) = Some ''enum''"
        by (simp add: inferType_def truthy_str_def)
      then show ?thesis using toLowerCase_enum by blast
    next
      case empty
      with a have "inferType (col_type d) (options_of d) = Some ''enum''"
        by (simp add: inferType_def truthy_str_def)
      then show ?thesis using toLowerCase_enum by blast
    next
      case enum
      then have "t \<noteq> []" by (auto simp: toLowerCase_def)
      with enum have "inferType (col_type d) (options_of d) = Some t"
        by (simp add: inferType_def truthy_str_def)
      with enum show ?thesis by blast
    qed
    then obtain ty where ty: "inferType (col_type d) (options_of d) = Some ty"
      "toLowerCase ty = ''enum''"
      by blast
    from a have ev: "enumValues (options_of d) = Some ev" "ev \<noteq> []" by simp_all
    from ev ty show "col_error (ColumnGenerator d) = None
      \<and> startsWith (column (ColumnGenerator d))
           (col_name d @ '': '' @ ev @ ''('' @ quoted (col_name d) @ '')'')
      \<and> imported (col_imports (ColumnGenerator d)) ''../enums/index.js'' = [ev]
      \<and> imported (col_imports (ColumnGenerator d)) ''drizzle-orm/pg-core'' = []"
      by (rule ColumnGenerator_enum)
  qed
next
  show "col_type d = Some t \<and> t \<noteq> [] \<and> toLowerCase t \<noteq> ''enum'' \<longrightarrow>
        ColumnGenerator d =
          ColumnGenerator (d\<lparr>col_options := Some ((options_of d)\<lparr>enumValues := None\<rparr>)\<rparr>)"
  proof (rule impI)
    assume b: "col_type d = Some t \<and> t \<noteq> [] \<and> toLowerCase t \<noteq> ''enum''"
    let ?d' = "d\<lparr>col_options := Some ((options_of d)\<lparr>enumValues := None\<rparr>)\<rparr>"
    have o: "options_of ?d' = (options_of d)\<lparr>enumValues := None\<rparr>"
      by (simp add: options_of_def)
    from b have ct: "col_type d = Some t" by simp
    from b have i: "inferType (Some t) opts = Some t" for opts
      by (simp add: inferType_def truthy_str_def)
    show "ColumnGenerator d = ColumnGenerator ?d'"
    proof (cases "TypeMap (toLowerCase t)")
      case None
      then show ?thesis by (simp add: ColumnGenerator_def Let_def ct i o)
    next
      case (Some f)
      with b show ?thesis
        by (simp add: ColumnGenerator_def Let_def ct i o cong: option.case_cong)
    qed
  qed
qed

theorem enum_column_rendering_witness:
  "col_error (ColumnGenerator enum_typed_column) = None
   \<and> startsWith (column (ColumnGenerator enum_typed_column))
        (''status: UserStatus('' @ quoted ''status'' @ '')'')
   \<and> imported (col_imports (ColumnGenerator enum_typed_column)) ''../enums/index.js'' = [''UserStatus'']
   \<and> imported (col_imports (ColumnGenerator enum_typed_column)) ''drizzle-orm/pg-core'' = []
   \<and> ColumnGenerator both_set_column =
       ColumnGenerator (both_set_column\<lparr>col_options := Some ((options_of both_set_column)\<lparr>enumValues := None\<rparr>)\<rparr>)"
proof -
  have a: "enumValues (options_of enum_typed_column) = Some ''UserStatus'' \<and> ''UserStatus'' \<noteq> []
    \<and> (col_type enum_typed_column = None \<or> col_type enum_typed_column = Some []
        \<or> (\<exists>t. col_type enum_typed_column = Some t \<and> toLowerCase t = ''enum''))"
    by (simp add: enum_typed_column_def options_of_def no_options_def toLowerCase_def
          toLowerChar_def upper_chars_def lower_chars_def latin_upper_chars_def latin_lower_chars_def)
  have b: "col_type both_set_column = Some ''string'' \<and> ''string'' \<noteq> []
           \<and> toLowerCase ''string'' \<noteq> ''enum''"
    by (simp add: both_set_column_def toLowerCase_def toLowerChar_def upper_chars_def lower_chars_def latin_upper_chars_def latin_lower_chars_def)
  have n: "col_name enum_typed_column = ''status''" by (simp add: enum_typed_column_def)
  note t1 = enum_column_rendering [of enum_typed_column "''UserStatus''" "''string''", THEN conjunct1]
  note t2 = enum_column_rendering [of both_set_column "''UserStatus''" "''string''", THEN conjunct2]
  from t1 a have r1: "col_error (ColumnGenerator enum_typed_column) = None
      \<and> startsWith (column (ColumnGenerator enum_typed_column))
           (col_name enum_typed_column @ '': '' @ ''UserStatus'' @ ''('' @
            quoted (col_name enum_typed_column) @ '')'')
      \<and> imported (col_imports (ColumnGenerator enum_typed_column)) ''../enums/index.js'' = [''UserStatus'']
      \<and> imported (col_imports (ColumnGenerator enum_typed_column)) ''drizzle-orm/pg-core'' = []"
    by (rule mp)
  from t2 b have r2: "ColumnGenerator both_set_column =
       ColumnGenerator (both_set_column\<lparr>col_options := Some ((options_of both_set_column)\<lparr>enumValues := None\<rparr>)\<rparr>)"
    by (rule mp)
  from r1 have r1': "col_error (ColumnGenerator enum_typed_column) = None
   \<and> startsWith (column (ColumnGenerator enum_typed_column))
        (''status: UserStatus('' @ quoted ''status'' @ '')'')
   \<and> imported (col_imports (ColumnGenerator enum_typed_column)) ''../enums/index.js'' = [''UserStatus'']
   \<and> imported (col_imports (ColumnGenerator enum_typed_column)) ''drizzle-orm/pg-core'' = []"
    by (simp add: n)
  from r1' r2 show ?thesis by (intro conjI) (assumption | rule conjunct1, assumption | rule conjunct2, assumption | erule conjE)+
qed

text \<open>
  Claim C2 as stated, for every definition with both type and \<open>enumValues\<close>, fails: with
  type \<open>string\<close> the column is a \<open>varchar\<close> column, and only \<open>varchar\<close> is imported.
\<close>

theorem enum_column_rendering_counterexample:
  "col_type both_set_column = Some ''string''
   \<and> enumValues (options_of both_set_column) = Some ''UserStatus''
   \<and> column (ColumnGenerator both_set_column) = ''status: varchar('' @ quoted ''status'' @ ''),''
   \<and> col_imports (ColumnGenerator both_set_column) = [(''drizzle-orm/pg-core'', [''varchar''])]"
  by (simp add: both_set_column_def ColumnGenerator_def Let_def options_of_def no_options_def
        inferType_def truthy_str_def truthy_num_def truthy_bool_def TypeMap_def toLowerCase_def
        toLowerChar_def upper_chars_def lower_chars_def latin_upper_chars_def latin_lower_chars_def quoted_def)

subsection \<open>The schema reader\<close>

text \<open>A literal in a pattern matches exactly when the input starts with it.\<close>

lemma rmatch_lit:
  "rmatch (lit p @ rs) s caps =
     (if startsWith s p then rmatch rs (drop (length p) s) caps else None)"
proof (induction p arbitrary: s)
  case Nil
  then show ?case by (simp add: lit_def startsWith_def)
next
  case (Cons c p)
  show ?case
  proof (cases s)
    case Nil
    then show ?thesis by (simp add: lit_def startsWith_def)
  next
    case (Cons x xs)
    with Cons.IH [of xs] show ?thesis by (auto simp: lit_def startsWith_def)
  qed
qed





text \<open>
  A capture group of one or more characters of a class, followed by a literal character
  outside the class, matches the longest run of the class: giving characters back cannot
  help, since the character after a shorter run is in the class and not the literal.
\<close>

lemma rmatch_star_close:
  "list_all P xs \<Longrightarrow> \<not> P c \<Longrightarrow>
     rmatch (Star P # Close n # Lit c # rs) (xs @ c # s) caps =
       rmatch rs s (close_group n (c # s) caps)"
proof (induction xs)
  case Nil
  then show ?case by simp
next
  case (Cons x xs)
  then have "x \<noteq> c" by auto
  with Cons show ?case by (simp split: option.splits)
qed

lemma rmatch_group_plus:
  assumes "xs \<noteq> []" "list_all P xs" "\<not> P c"
  shows "rmatch (group_plus n P @ Lit c # rs) (xs @ c # s) caps =
           rmatch rs s ((n, xs) # (n, xs @ c # s) # caps)"
proof -
  from assms(1) obtain x xs' where xs: "xs = x # xs'" by (cases xs) auto
  with assms(2) have px: "P x" and pxs: "list_all P xs'" by simp_all
  have "rmatch (group_plus n P @ Lit c # rs) (xs @ c # s) caps =
          rmatch (Star P # Close n # Lit c # rs) (xs' @ c # s) ((n, xs @ c # s) # caps)"
    by (simp add: group_plus_def xs px)
  also have "\<dots> = rmatch rs s (close_group n (c # s) ((n, xs @ c # s) # caps))"
    using pxs assms(3) by (rule rmatch_star_close)
  also have "close_group n (c # s) ((n, xs @ c # s) # caps) = (n, xs) # (n, xs @ c # s) # caps"
    by (simp add: close_group_def)
  finally show ?thesis .
qed

lemma rmatch_group_plus_end:
  assumes "xs \<noteq> []" "list_all P xs" "\<not> P c"
  shows "rmatch (group_plus n P @ [Lit c]) (xs @ c # s) caps =
           Some ((n, xs) # (n, xs @ c # s) # caps, s)"
  using rmatch_group_plus [OF assms, of n "[]" s caps] by simp

lemma rmatch_lit_append: "rmatch (lit p @ rs) (p @ s) caps = rmatch rs s caps"
  by (simp add: rmatch_lit startsWith_def)



















text \<open>
  The pieces of the generated enum source: the snake case of a word has no quote, and the
  list of quoted values has no closing bracket when no value has one.
\<close>

lemma snake_from_word:
  "list_all is_word s \<Longrightarrow> list_all (not_char QT) (snake_from i s)"
proof (induction s arbitrary: i)
  case Nil
  then show ?case by simp
next
  case (Cons c s)
  have "toLowerChar c \<noteq> QT" if "is_upper c"
    using that by (auto simp: is_upper_def upper_chars_def toLowerChar_def lower_chars_def)
  moreover have "c \<noteq> QT" if "is_word c"
    using that
    by (auto simp: is_word_def is_upper_def is_lower_def is_digit_def upper_chars_def
          lower_chars_def latin_upper_chars_def latin_lower_chars_def digit_chars_def)
  ultimately show ?case using Cons by (simp add: not_char_def)
qed

lemma snake_from_nonempty: "s \<noteq> [] \<Longrightarrow> snake_from i s \<noteq> []"
  by (cases s) auto

lemma join_quoted_no_bracket:
  "\<forall>pv \<in> set pvs. CHR '']'' \<notin> set pv \<Longrightarrow>
     list_all (not_char CHR '']'') (join '', '' (map quoted pvs))"
proof (induction pvs rule: induct_list012)
  case 1
  then show ?case by simp
next
  case (2 x)
  then show ?case by (auto simp: quoted_def not_char_def list_all_iff)
next
  case (3 x y zs)
  then show ?case by (auto simp: quoted_def not_char_def list_all_iff)
qed

lemma join_quoted_nonempty: "pvs \<noteq> [] \<Longrightarrow> join '', '' (map quoted pvs) \<noteq> []"
  by (induction pvs rule: induct_list012) (simp_all add: quoted_def)

text \<open>
  The global match of the quoted-value pattern on the generated list gives the quoted
  values, one by one.
\<close>

lemma match_all_skip: "match_all r (length a + k) (a @ rest) = match_all r k rest"
  by (induction a) simp_all

lemma rmatch_quoted_value:
  assumes "pv \<noteq> []" "QT \<notin> set pv"
  shows "rmatch quoted_value_pattern (quoted pv @ rest) [] =
           Some ([(1, pv), (1, pv @ QT # rest)], rest)"
proof -
  from assms(2) have "list_all (not_char QT) pv" by (auto simp: list_all_iff not_char_def)
  with assms(1) have "rmatch (group_plus 1 (not_char QT) @ [Lit QT]) (pv @ QT # rest) [] =
           Some ((1, pv) # (1, pv @ QT # rest) # [], rest)"
    by (intro rmatch_group_plus_end) (simp_all add: not_char_def)
  then show ?thesis by (simp add: quoted_value_pattern_def quoted_def)
qed

lemma match_all_quoted_first:
  assumes "pv \<noteq> []" "QT \<notin> set pv"
  shows "match_all quoted_value_pattern 0 (quoted pv @ rest) =
           quoted pv # match_all quoted_value_pattern 0 rest"
proof -
  have q: "quoted pv @ rest = QT # (pv @ [QT]) @ rest" by (simp add: quoted_def)
  have m: "rmatch quoted_value_pattern (QT # pv @ QT # rest) [] =
             Some ([(1, pv), (1, pv @ QT # rest)], rest)"
    using rmatch_quoted_value [OF assms, of rest] by (simp add: quoted_def)
  have "match_all quoted_value_pattern 0 (QT # (pv @ [QT]) @ rest) =
          (QT # pv @ [QT]) # match_all quoted_value_pattern (length (pv @ [QT]) + 0) ((pv @ [QT]) @ rest)"
    by (simp add: m Let_def)
  also have "\<dots> = (QT # pv @ [QT]) # match_all quoted_value_pattern 0 rest"
    by (simp only: match_all_skip)
  finally show ?thesis by (simp add: quoted_def)
qed

lemma match_all_quoted_sep:
  "match_all quoted_value_pattern 0 ('', '' @ rest) = match_all quoted_value_pattern 0 rest"
  by (simp add: quoted_value_pattern_def)

lemma match_all_join:
  "\<forall>pv \<in> set pvs. pv \<noteq> [] \<and> QT \<notin> set pv \<Longrightarrow>
     match_all quoted_value_pattern 0 (join '', '' (map quoted pvs)) = map quoted pvs"
proof (induction pvs rule: induct_list012)
  case 1
  then show ?case by (simp add: quoted_value_pattern_def)
next
  case (2 x)
  then have "match_all quoted_value_pattern 0 (quoted x @ []) =
               quoted x # match_all quoted_value_pattern 0 []"
    by (intro match_all_quoted_first) simp_all
  then show ?case by (simp add: quoted_value_pattern_def)
next
  case (3 x y zs)
  then have "match_all quoted_value_pattern 0 (quoted x @ ('', '' @ join '', '' (map quoted (y # zs)))) =
               quoted x # match_all quoted_value_pattern 0 ('', '' @ join '', '' (map quoted (y # zs)))"
    by (intro match_all_quoted_first) simp_all
  also have "\<dots> = quoted x # match_all quoted_value_pattern 0 (join '', '' (map quoted (y # zs)))"
    by (simp only: match_all_quoted_sep)
  also have "\<dots> = quoted x # map quoted (y # zs)"
    using 3 by simp
  finally show ?case by simp
qed

lemma unquote: "QT \<notin> set pv \<Longrightarrow> filter (\<lambda>c. c \<noteq> QT) (quoted pv) = pv"
  by (auto simp: quoted_def filter_id_conv)

lemma snake_from_SnakeCase: "snake_from 0 s = SnakeCase s"
  by (simp add: SnakeCase_def)

lemma rmatch_enum_pattern:
  assumes n: "name \<noteq> []" "list_all is_word name"
    and s: "snake \<noteq> []" "list_all (not_char QT) snake"
    and v: "vs \<noteq> []" "list_all (not_char CHR '']'') vs"
  shows "\<exists>caps. rmatch enum_pattern
           (''export const '' @ name @ '' = pgEnum('' @ quoted snake @ '', ['' @ vs @ ''] as const);'') []
           = Some (caps, []) \<and> cap caps 1 = name \<and> cap caps 3 = vs"
proof -
  let ?r3 = "lit '' as const);''"
  let ?s3 = "'' as const);''"
  let ?r2 = "lit '', ['' @ group_plus 3 (not_char CHR '']'') @ Lit CHR '']'' # ?r3"
  let ?s2 = "'', ['' @ vs @ CHR '']'' # ?s3"
  let ?r1 = "lit ''= pgEnum('' @ Lit QT # group_plus 2 (not_char QT) @ Lit QT # ?r2"
  let ?s1 = "''= pgEnum('' @ QT # snake @ QT # ?s2"
  let ?c1 = "[(1, name), (1, name @ CHR '' '' # ?s1)]"
  let ?c2 = "(2, snake) # (2, snake @ QT # ?s2) # ?c1"
  let ?c3 = "(3, vs) # (3, vs @ CHR '']'' # ?s3) # ?c2"
  have p: "enum_pattern = lit ''export const '' @ group_plus 1 is_word @ Lit CHR '' '' # ?r1"
    by (simp add: enum_pattern_def lit_def)
  have c: "''export const '' @ name @ '' = pgEnum('' @ quoted snake @ '', ['' @ vs @ ''] as const);''
           = ''export const '' @ name @ CHR '' '' # ?s1"
    by (simp add: quoted_def)
  have w: "\<not> is_word CHR '' ''"
    by (simp add: is_word_def is_upper_def is_lower_def is_digit_def upper_chars_def
          lower_chars_def latin_upper_chars_def latin_lower_chars_def digit_chars_def)
  have "rmatch enum_pattern (''export const '' @ name @ CHR '' '' # ?s1) []
        = rmatch (group_plus 1 is_word @ Lit CHR '' '' # ?r1) (name @ CHR '' '' # ?s1) []"
    unfolding p by (rule rmatch_lit_append)
  also have "\<dots> = rmatch ?r1 ?s1 ?c1"
    using n w by (rule rmatch_group_plus)
  also have "\<dots> = rmatch (Lit QT # group_plus 2 (not_char QT) @ Lit QT # ?r2) (QT # snake @ QT # ?s2) ?c1"
    by (rule rmatch_lit_append)
  also have "\<dots> = rmatch (group_plus 2 (not_char QT) @ Lit QT # ?r2) (snake @ QT # ?s2) ?c1"
    by simp
  also have "\<dots> = rmatch ?r2 ?s2 ?c2"
    using s by (rule rmatch_group_plus) (simp add: not_char_def)
  also have "\<dots> = rmatch (group_plus 3 (not_char CHR '']'') @ Lit CHR '']'' # ?r3) (vs @ CHR '']'' # ?s3) ?c2"
    by (rule rmatch_lit_append)
  also have "\<dots> = rmatch ?r3 ?s3 ?c3"
    using v by (rule rmatch_group_plus) (simp add: not_char_def)
  also have "\<dots> = Some (?c3, [])"
    using rmatch_lit_append [of "'' as const);''" "[]" "[]" ?c3] by simp
  finally have "rmatch enum_pattern
           (''export const '' @ name @ '' = pgEnum('' @ quoted snake @ '', ['' @ vs @ ''] as const);'') []
           = Some (?c3, [])"
    unfolding c .
  moreover have "cap ?c3 1 = name \<and> cap ?c3 3 = vs" by (simp add: cap_def)
  ultimately show ?thesis by blast
qed

text \<open>
  The reader on an enum declaration: when the name is a word and the values between the
  brackets are quoted texts, none empty and none with a quote or a closing bracket, the
  reader finds the name and, for each quoted text in order, its snake case.
\<close>

lemma parseEnumContent_declaration:
  assumes n: "name \<noteq> []" "list_all is_word name"
    and p: "pvs \<noteq> []" "\<forall>pv \<in> set pvs. pv \<noteq> [] \<and> QT \<notin> set pv \<and> CHR '']'' \<notin> set pv"
  shows "parseEnumContent
           (''export const '' @ name @ '' = pgEnum('' @ quoted (SnakeCase name) @ '', ['' @
            join '', '' (map quoted pvs) @ ''] as const);'') filename errors =
         (Some \<lparr>enum_name = name, enum_values = map SnakeCase pvs\<rparr>, errors)"
proof -
  let ?vs = "join '', '' (map quoted pvs)"
  let ?code = "''export const '' @ name @ '' = pgEnum('' @ quoted (SnakeCase name) @ '', ['' @
               ?vs @ ''] as const);''"
  from n have sn: "SnakeCase name \<noteq> []" "list_all (not_char QT) (SnakeCase name)"
    by (simp_all add: SnakeCase_def snake_from_nonempty snake_from_word)
  have vs1: "?vs \<noteq> []"
    using p(1) by (rule join_quoted_nonempty)
  have vs2: "list_all (not_char CHR '']'') ?vs"
    by (rule join_quoted_no_bracket) (use p in auto)
  note vs = vs1 vs2
  from rmatch_enum_pattern [OF n sn vs] obtain caps where
    m: "rmatch enum_pattern ?code [] = Some (caps, [])" and c1: "cap caps 1 = name"
    and c3: "cap caps 3 = ?vs"
    by blast
  have "?code = CHR ''e'' # (''xport const '' @ name @ '' = pgEnum('' @ quoted (SnakeCase name) @
               '', ['' @ ?vs @ ''] as const);'')"
    by simp
  then have rs: "rsearch enum_pattern ?code = Some (caps, ?code, [])"
    using m by (metis (no_types, lifting) rsearch.simps(2) option.simps(5) prod.simps(2))
  from p have ma: "match_all quoted_value_pattern 0 ?vs = map quoted pvs"
    by (intro match_all_join) simp
  from p have un: "map (\<lambda>v. snake_from 0 (filter (\<lambda>c. c \<noteq> QT) v)) (map quoted pvs) =
                   map SnakeCase pvs"
    by (simp add: unquote snake_from_SnakeCase comp_def)
  from p have ne: "map quoted pvs \<noteq> []" by simp
  show ?thesis
    unfolding parseEnumContent_def rs
    by (simp only: Let_def c1 c3 ma un ne option.simps prod.simps if_False)
qed

text \<open>
  The letters and digits of ASCII under the case conversions, checked one by one.
\<close>

lemma letters_checked:
  "list_all (\<lambda>c. toUpperChar c = [hd (toUpperChar c)] \<and> is_upper (hd (toUpperChar c))
                  \<and> toLowerChar (hd (toUpperChar c)) = toLowerChar c)
            (upper_chars @ lower_chars)"
  by code_simp

lemma alnums_checked:
  "list_all (\<lambda>c. is_upper (toLowerChar c) = False
                  \<and> (toLowerChar c \<in> set (upper_chars @ lower_chars @ digit_chars))
                  \<and> c \<noteq> QT \<and> c \<noteq> CHR '']'' \<and> c \<noteq> CHR '' '' \<and> c \<noteq> CHR ''_'' \<and> c \<noteq> CHR ''-'')
            (upper_chars @ lower_chars @ digit_chars)"
  by code_simp

lemma digits_checked:
  "list_all (\<lambda>c. toUpperChar c = [c] \<and> is_upper c = False \<and> toLowerChar c = c) digit_chars"
  by code_simp

lemma is_alnum_set: "is_alnum c \<longleftrightarrow> c \<in> set (upper_chars @ lower_chars @ digit_chars)"
  by (auto simp: is_alnum_def is_upper_def is_lower_def is_digit_def)

lemma toUpperChar_letter:
  assumes "is_upper c \<or> is_lower c"
  obtains u where "toUpperChar c = [u]" "is_upper u" "toLowerChar u = toLowerChar c"
proof -
  from assms have "c \<in> set (upper_chars @ lower_chars)"
    by (auto simp: is_upper_def is_lower_def)
  with letters_checked have "toUpperChar c = [hd (toUpperChar c)] \<and> is_upper (hd (toUpperChar c))
                  \<and> toLowerChar (hd (toUpperChar c)) = toLowerChar c"
    unfolding list_all_iff by blast
  with that show thesis by blast
qed

lemma toUpperChar_digit:
  assumes "is_digit c"
  shows "toUpperChar c = [c]" "\<not> is_upper c" "toLowerChar c = c"
  using assms digits_checked unfolding list_all_iff is_digit_def by blast+

lemma alnum_facts:
  assumes "is_alnum c"
  shows "\<not> is_upper (toLowerChar c)" "is_alnum (toLowerChar c)" "c \<noteq> QT" "c \<noteq> CHR '']''"
    "c \<noteq> CHR '' ''" "c \<noteq> CHR ''_''" "c \<noteq> CHR ''-''"
  using assms alnums_checked unfolding list_all_iff is_alnum_set by blast+

lemma snake_from_lower:
  "list_all is_alnum cs \<Longrightarrow>
     snake_from i (toLowerCase cs @ rest) = toLowerCase cs @ snake_from (i + length cs) rest"
  by (induction cs arbitrary: i) (simp_all add: toLowerCase_def alnum_facts(1))

lemma snake_from_later_word:
  assumes "later_word w" "i > 0"
  shows "snake_from i (capitalize w @ rest) =
           ''_'' @ toLowerCase w @ snake_from (i + length w) rest"
proof -
  from assms(1) obtain c cs where w: "w = c # cs" and l: "is_upper c \<or> is_lower c"
    and a: "list_all is_alnum cs"
    by (cases w) auto
  from l obtain u where u: "toUpperChar c = [u]" "is_upper u" "toLowerChar u = toLowerChar c"
    by (rule toUpperChar_letter)
  have "snake_from i (capitalize w @ rest) =
          ''_'' @ [toLowerChar c] @ snake_from (Suc i) (toLowerCase cs @ rest)"
    using u assms(2) by (simp add: w)
  also have "snake_from (Suc i) (toLowerCase cs @ rest) =
               toLowerCase cs @ snake_from (Suc i + length cs) rest"
    using a by (rule snake_from_lower)
  finally show ?thesis by (simp add: w toLowerCase_def)
qed

lemma snake_from_first_word:
  assumes "w \<noteq> []" "list_all is_alnum w"
  shows "snake_from 0 (capitalize w @ rest) = toLowerCase w @ snake_from (length w) rest"
proof -
  from assms obtain c cs where w: "w = c # cs" and c: "is_alnum c" and a: "list_all is_alnum cs"
    by (cases w) auto
  have h: "snake_from 0 (toUpperChar c @ s) = toLowerChar c # snake_from 1 s" for s
  proof (cases "is_digit c")
    case True
    then show ?thesis by (simp add: toUpperChar_digit)
  next
    case False
    with c have "is_upper c \<or> is_lower c" by (simp add: is_alnum_def)
    then obtain u where u: "toUpperChar c = [u]" "is_upper u" "toLowerChar u = toLowerChar c"
      by (rule toUpperChar_letter)
    then show ?thesis by simp
  qed
  have "snake_from 0 (capitalize w @ rest) = toLowerChar c # snake_from 1 (toLowerCase cs @ rest)"
    using h [of "toLowerCase cs @ rest"] by (simp add: w)
  also have "snake_from 1 (toLowerCase cs @ rest) = toLowerCase cs @ snake_from (1 + length cs) rest"
    using a by (rule snake_from_lower)
  finally show ?thesis by (simp add: w toLowerCase_def)
qed

lemma snake_from_later_words:
  "list_all later_word ws \<Longrightarrow> i > 0 \<Longrightarrow>
     snake_from i (concat (map capitalize ws)) = concat (map (\<lambda>w. ''_'' @ toLowerCase w) ws)"
proof (induction ws arbitrary: i)
  case Nil
  then show ?case by simp
next
  case (Cons w ws)
  then have "snake_from i (capitalize w @ concat (map capitalize ws)) =
               ''_'' @ toLowerCase w @ snake_from (i + length w) (concat (map capitalize ws))"
    by (intro snake_from_later_word) simp_all
  moreover have "snake_from (i + length w) (concat (map capitalize ws)) =
                   concat (map (\<lambda>w. ''_'' @ toLowerCase w) ws)"
    using Cons by simp
  ultimately show ?case by simp
qed

lemma join_concat: "join sep (x # xs) = x @ concat (map (\<lambda>w. sep @ w) xs)"
  by (induction xs arbitrary: x) simp_all

lemma capitalize_nonempty: "w \<noteq> [] \<Longrightarrow> capitalize w \<noteq> []"
  by (cases w) (auto simp: toUpperChar_def split: option.splits)

lemma SnakeCase_capitalized:
  assumes "snake_words ws"
  shows "SnakeCase (concat (map capitalize ws)) = join ''_'' (map toLowerCase ws)"
proof -
  from assms obtain w ws' where ws: "ws = w # ws'" and w: "w \<noteq> []" "list_all is_alnum w"
    and l: "list_all later_word ws'"
    by (cases ws) auto
  have n: "capitalize w \<noteq> []" using w(1) by (rule capitalize_nonempty)
  have "snake_from 0 (capitalize w @ concat (map capitalize ws')) =
          toLowerCase w @ snake_from (length w) (concat (map capitalize ws'))"
    using w by (rule snake_from_first_word)
  also have "snake_from (length w) (concat (map capitalize ws')) =
               concat (map (\<lambda>w. ''_'' @ toLowerCase w) ws')"
    using l w(1) by (intro snake_from_later_words) simp_all
  finally show ?thesis using n by (simp add: SnakeCase_def ws join_concat comp_def)
qed

lemma split_runs_words:
  "list_all (\<lambda>w. w \<noteq> []) (words_from cur v) \<Longrightarrow> (b \<Longrightarrow> cur = []) \<Longrightarrow>
     split_runs b cur v = words_from cur v"
proof (induction v arbitrary: cur b)
  case Nil
  then show ?case by simp
next
  case (Cons c cs)
  show ?case
  proof (cases "c = CHR ''_'' \<or> c = CHR ''-''")
    case True
    with Cons.prems have "cur \<noteq> []" and r: "list_all (\<lambda>w. w \<noteq> []) (words_from [] cs)" by auto
    with Cons.prems(2) have "\<not> b" by auto
    moreover from r have "split_runs True [] cs = words_from [] cs" by (intro Cons.IH) simp_all
    ultimately show ?thesis using True by simp
  next
    case False
    with Cons.prems have "list_all (\<lambda>w. w \<noteq> []) (words_from (cur @ [c]) cs)" by simp
    then have "split_runs False (cur @ [c]) cs = words_from (cur @ [c]) cs"
      by (intro Cons.IH) simp_all
    with False show ?thesis by simp
  qed
qed

lemma split_char_absent: "sep \<notin> set w \<Longrightarrow> split_char sep cur w = [cur @ w]"
  by (induction w arbitrary: cur) auto

lemma snake_words_nonempty: "snake_words ws \<Longrightarrow> list_all (\<lambda>w. w \<noteq> []) ws"
proof -
  assume a: "snake_words ws"
  have "later_word w \<Longrightarrow> w \<noteq> []" for w by (cases w) simp_all
  with a show ?thesis by (cases ws) (auto simp: list_all_iff)
qed

lemma snake_words_alnum: "snake_words ws \<Longrightarrow> w \<in> set ws \<Longrightarrow> list_all is_alnum w"
proof -
  assume a: "snake_words ws" "w \<in> set ws"
  have "later_word w \<Longrightarrow> list_all is_alnum w" for w
    by (cases w) (auto simp: is_alnum_def)
  with a show ?thesis by (cases ws) (auto simp: list_all_iff)
qed

lemma PascalCase_token:
  assumes "snake_token v"
  shows "PascalCase v = concat (map capitalize (token_words v))"
proof -
  from assms have s: "snake_words (token_words v)" by (simp add: snake_token_def)
  then have "split_runs False [] v = token_words v"
    unfolding token_words_def by (intro split_runs_words snake_words_nonempty) simp_all
  moreover have "join '' '' (map capitalize (split_char CHR '' '' [] w)) = capitalize w"
    if "w \<in> set (token_words v)" for w
  proof -
    from s that have "list_all is_alnum w" by (rule snake_words_alnum)
    then have "CHR '' '' \<notin> set w" using alnum_facts(5) by (auto simp: list_all_iff)
    then show ?thesis by (simp add: split_char_absent)
  qed
  ultimately show ?thesis by (simp add: PascalCase_def cong: map_cong)
qed

lemma canonical_round_trip:
  "snake_token v \<Longrightarrow> SnakeCase (PascalCase v) = canonical_snake v"
  by (simp add: PascalCase_token SnakeCase_capitalized snake_token_def canonical_snake_def)

lemma capitalize_alnum: "list_all is_alnum w \<Longrightarrow> list_all is_alnum (capitalize w)"
proof (cases w)
  case Nil
  then show ?thesis by simp
next
  case (Cons c cs)
  assume a: "list_all is_alnum w"
  with Cons have c: "is_alnum c" and cs: "list_all is_alnum cs" by simp_all
  from cs have l: "list_all is_alnum (toLowerCase cs)"
    by (auto simp: list_all_iff toLowerCase_def alnum_facts(2))
  have "list_all is_alnum (toUpperChar c)"
  proof (cases "is_digit c")
    case True
    then show ?thesis using c by (simp add: toUpperChar_digit)
  next
    case False
    with c have "is_upper c \<or> is_lower c" by (simp add: is_alnum_def)
    then obtain u where "toUpperChar c = [u]" "is_upper u" by (rule toUpperChar_letter)
    then show ?thesis by (simp add: is_alnum_def)
  qed
  with l show ?thesis by (simp add: Cons)
qed

lemma PascalCase_token_plain:
  assumes "snake_token v"
  shows "PascalCase v \<noteq> []" "QT \<notin> set (PascalCase v)" "CHR '']'' \<notin> set (PascalCase v)"
proof -
  from assms have s: "snake_words (token_words v)" by (simp add: snake_token_def)
  then obtain w ws where ws: "token_words v = w # ws" and w: "w \<noteq> []" by (cases "token_words v") auto
  then show "PascalCase v \<noteq> []" using assms by (simp add: PascalCase_token capitalize_nonempty)
  have "list_all is_alnum (capitalize w')" if "w' \<in> set (token_words v)" for w'
    using s that by (intro capitalize_alnum snake_words_alnum)
  then have "list_all is_alnum (PascalCase v)"
    using assms by (auto simp: PascalCase_token list_all_iff)
  then show "QT \<notin> set (PascalCase v)" "CHR '']'' \<notin> set (PascalCase v)"
    using alnum_facts(3,4) by (auto simp: list_all_iff)
qed

text \<open>
  Claim C7, amended. For every enum definition whose name is a non-empty word (letters,
  digits and underscores) and whose values are not empty, each value a token of words of
  ASCII letters and digits in any letter case, separated by single underscores or
  hyphens, every word after the first starting with a letter, decoding the generated
  source gives back the name and, in the original order, the canonical snake case of
  each value: its words in lower case, joined by underscores. No error is recorded.
\<close>

theorem enum_round_trip:
  "enum_name e \<noteq> [] \<and> list_all is_word (enum_name e) \<and> enum_values e \<noteq> []
   \<and> list_all snake_token (enum_values e) \<longrightarrow>
     parseEnumContent (enumCode (EnumGenerator e)) filename errors =
       (Some \<lparr>enum_name = enum_name e,
              enum_values = map canonical_snake (enum_values e)\<rparr>, errors)"
proof (rule impI)
  assume a: "enum_name e \<noteq> [] \<and> list_all is_word (enum_name e) \<and> enum_values e \<noteq> []
   \<and> list_all snake_token (enum_values e)"
  let ?pvs = "map PascalCase (enum_values e)"
  from a have n: "enum_name e \<noteq> []" "list_all is_word (enum_name e)" by simp_all
  from a have t: "\<forall>v \<in> set (enum_values e). snake_token v" by (simp add: list_all_iff)
  from a have p1: "?pvs \<noteq> []" by simp
  from t have p2: "\<forall>pv \<in> set ?pvs. pv \<noteq> [] \<and> QT \<notin> set pv \<and> CHR '']'' \<notin> set pv"
    using PascalCase_token_plain by auto
  from a have "enumCode (EnumGenerator e) =
      ''export const '' @ enum_name e @ '' = pgEnum('' @ quoted (SnakeCase (enum_name e)) @ '', ['' @
      join '', '' (map quoted ?pvs) @ ''] as const);''"
    by (simp add: EnumGenerator_def Let_def comp_def)
  then have "parseEnumContent (enumCode (EnumGenerator e)) filename errors =
       (Some \<lparr>enum_name = enum_name e, enum_values = map SnakeCase ?pvs\<rparr>, errors)"
    using parseEnumContent_declaration [OF n p1 p2, of filename errors] by simp
  moreover have "map SnakeCase ?pvs = map canonical_snake (enum_values e)"
    using t by (simp add: canonical_round_trip)
  ultimately show "parseEnumContent (enumCode (EnumGenerator e)) filename errors =
       (Some \<lparr>enum_name = enum_name e,
              enum_values = map canonical_snake (enum_values e)\<rparr>, errors)"
    by simp
qed

theorem enum_round_trip_witness:
  "parseEnumContent (enumCode (EnumGenerator status_enum)) ''UserStatus.ts'' [] =
     (Some \<lparr>enum_name = ''UserStatus'', enum_values = [''active'', ''in_progress'', ''to_do'']\<rparr>, [])"
proof -
  have h: "enum_name status_enum \<noteq> [] \<and> list_all is_word (enum_name status_enum)
   \<and> enum_values status_enum \<noteq> [] \<and> list_all snake_token (enum_values status_enum)"
    by code_simp
  have v: "map canonical_snake (enum_values status_enum) = [''active'', ''in_progress'', ''to_do'']"
    by code_simp
  have n: "enum_name status_enum = ''UserStatus''" by (simp add: status_enum_def)
  from enum_round_trip [of status_enum "''UserStatus.ts''" "[]"] h
  have "parseEnumContent (enumCode (EnumGenerator status_enum)) ''UserStatus.ts'' [] =
       (Some \<lparr>enum_name = enum_name status_enum,
              enum_values = map canonical_snake (enum_values status_enum)\<rparr>, [])"
    by (rule mp)
  then show ?thesis by (simp only: v n)
qed

text \<open>
  Claim C7 as stated, for values in arbitrary casing with nothing said of their words,
  fails: the value \<open>user_1_name\<close> is in canonical snake case already; it is rendered as
  \<open>User1Name\<close>, and it is decoded as \<open>user1_name\<close>, the underscore before the digit lost.
  Its second word starts with a digit.
\<close>

theorem enum_round_trip_counterexample:
  "fst (parseEnumContent (enumCode (EnumGenerator digit_enum)) ''Status.ts'' []) =
     Some \<lparr>enum_name = ''Status'', enum_values = [''user1_name'']\<rparr>
   \<and> map canonical_snake (enum_values digit_enum) = [''user_1_name'']
   \<and> map SnakeCase (enum_values digit_enum) = [''user_1_name'']
   \<and> token_words ''user_1_name'' = [''user'', ''1'', ''name'']"
  by code_simp

text \<open>
  Claim C1. The round trip is not idempotent on the code as it is. An enum column with
  the default \<open>in_progress\<close> is encoded with \<open>.default('InProgress')\<close>; the decoder
  lower-cases the quoted text, giving the default \<open>inprogress\<close>, and encoding that gives
  \<open>.default('Inprogress')\<close>. A column with the default \<open>sql.now()\<close> is encoded with
  \<open>.default(sql`now()`)\<close>; the decoder's pattern for the default stops at the first closing
  parenthesis, finds no closing back quote in what it took, and records no default, so
  the encoding of the decoded column has none.
\<close>

theorem column_round_trip_evaluated:
  "column (ColumnGenerator multiword_column) =
     ''status: TaskStatus('' @ quoted ''status'' @ '').default('' @ quoted ''InProgress'' @ ''),''
   \<and> parseColumnDefinition (column (ColumnGenerator multiword_column)) =
       Some multiword_column_decoded
   \<and> column (ColumnGenerator multiword_column_decoded) =
       ''status: TaskStatus('' @ quoted ''status'' @ '').default('' @ quoted ''Inprogress'' @ ''),''
   \<and> column (ColumnGenerator now_column) =
       ''createdAt: timestamp('' @ quoted ''createdAt'' @ '').notNull().default(sql'' @ [BQ] @
       ''now()'' @ [BQ] @ ''),''
   \<and> parseColumnDefinition (column (ColumnGenerator now_column)) = Some now_column_decoded
   \<and> column (ColumnGenerator now_column_decoded) =
       ''createdAt: timestamp('' @ quoted ''createdAt'' @ '').notNull(),''"
  by code_simp

end
